theory Spec2Isabelle
  imports Main "HOL-Library.AList"
begin

section \<open>JavaScript values used by the front-end\<close>

text \<open>
  A JavaScript string is a sequence of UTF-16 code units; the components compare strings
  with \<open>===\<close>, test them for truthiness (non-empty), concatenate them in template
  literals and trim them. A value of type \<open>string | null | undefined\<close> is a
  \<open>jsstring option\<close>. Numbers that occur here (scene indices, happiness, points) are
  integers and are modelled as \<open>int\<close>.
\<close>

type_synonym jsstring = "nat list"

abbreviation (input) lit :: "string \<Rightarrow> jsstring" where
  "lit s \<equiv> map of_char s"

text \<open>Truthiness of an optional string: \<open>null\<close>, \<open>undefined\<close> and \<open>''\<close> are falsy.\<close>

definition truthy :: "jsstring option \<Rightarrow> bool" where
  "truthy v = (case v of None \<Rightarrow> False | Some s \<Rightarrow> s \<noteq> [])"

text \<open>\<open>a || b\<close> on optional strings: the left operand when truthy, else the right one.\<close>

definition js_or :: "jsstring option \<Rightarrow> jsstring option \<Rightarrow> jsstring option" where
  "js_or a b = (if truthy a then a else b)"

text \<open>\<open>a || 'literal'\<close>: the right operand is a string, so the result is one.\<close>

definition js_or_str :: "jsstring option \<Rightarrow> jsstring \<Rightarrow> jsstring" where
  "js_or_str a d = (case a of None \<Rightarrow> d | Some s \<Rightarrow> if s \<noteq> [] then s else d)"

text \<open>The code units \<open>String.prototype.trim\<close> strips: WhiteSpace and LineTerminator.\<close>

definition isWhiteSpace :: "nat \<Rightarrow> bool" where
  "isWhiteSpace c =
     (c = 9 \<or> c = 10 \<or> c = 11 \<or> c = 12 \<or> c = 13 \<or> c = 32 \<or> c = 160 \<or> c = 5760 \<or>
      (8192 \<le> c \<and> c \<le> 8202) \<or> c = 8232 \<or> c = 8233 \<or> c = 8239 \<or> c = 8287 \<or>
      c = 12288 \<or> c = 65279)"

definition trim :: "jsstring \<Rightarrow> jsstring" where
  "trim s = rev (dropWhile isWhiteSpace (rev (dropWhile isWhiteSpace s)))"

text \<open>\<open>Number.prototype.toString\<close> on an integer: decimal digits, \<open>-\<close> for a negative one.\<close>

fun nat_digits :: "nat \<Rightarrow> jsstring" where
  "nat_digits n = (if n < 10 then [48 + n] else nat_digits (n div 10) @ [48 + n mod 10])"

declare nat_digits.simps [simp del]

definition toString :: "int \<Rightarrow> jsstring" where
  "toString i = (if i < 0 then 45 # nat_digits (nat (- i)) else nat_digits (nat i))"

text \<open>
  The object a \<open>throw\<close> of the platform carries (a \<open>DOMException\<close> of \<open>localStorage\<close>, a
  \<open>TypeError\<close>, an \<open>Error\<close>), with its optional message.
\<close>

datatype JsError = JsError (message: "jsstring option")

text \<open>
  The value a promise of the injected token manager rejects with. It is caught as
  \<open>error: any\<close>: reading \<open>error.message\<close> works on an object (and gives \<open>undefined\<close> on
  any other value but these two), and throws a \<open>TypeError\<close> on \<open>null\<close> and \<open>undefined\<close>.
\<close>

datatype Reason = ErrorObject JsError | Nullish

text \<open>The values \<open>JSON.parse\<close> returns and \<open>JSON.stringify\<close> takes.\<close>

datatype Json =
    JNull
  | JBool bool
  | JNum int
  | JStr jsstring
  | JArr "Json list"
  | JObj "(jsstring \<times> Json) list"

section \<open>The platform and the data the components are given\<close>

text \<open>
  The content of a chat message, one option of a scene, a scene and a character. Their
  type declarations (\<open>@/types/chat\<close>, \<open>@/data/characters\<close>) are not among the sources;
  the records hold the fields the component reads and writes: \<open>handleSend\<close> copies the
  nine fields of a message content one by one, and reads \<open>points\<close> (tested with
  \<open>typeof ... === 'number'\<close>) and \<open>response\<close> of an option, \<open>options\<close> of a scene, and
  \<open>language\<close> and \<open>scenes\<close> of a character (its \<open>name\<close> and \<open>image\<close> are only
  displayed).
\<close>

record MessageContent =
  english :: "jsstring option"
  chinese :: "jsstring option"
  pinyin :: "jsstring option"
  japanese :: "jsstring option"
  romaji :: "jsstring option"
  korean :: "jsstring option"
  romanized :: "jsstring option"
  spanish :: "jsstring option"
  video :: "jsstring option"

record ChatOption = MessageContent +
  points :: "int option"
  response :: "MessageContent option"

record Scene =
  options :: "ChatOption list option"

record Character =
  language :: "jsstring option"
  scenes :: "int \<Rightarrow> Scene option"

text \<open>
  What the browser and the imported modules provide. \<open>tokenManagerInitialized\<close> is
  \<open>window.tokenManager?.initialized\<close>; \<open>markChatCompleted_throws\<close> says whether the
  call \<open>window.tokenManager.markChatCompleted\<close> throws; \<open>setItem_throws\<close> says for
  which writes \<open>localStorage.setItem\<close> throws (a full or disabled store);
  \<open>characters\<close> and \<open>isValidCharacterId\<close> are the table and the test of
  \<open>@/data/characters\<close>. \<open>JSON.parse\<close> (\<open>None\<close> when it throws),
  \<open>JSON.stringify\<close> and \<open>String.prototype.toLowerCase\<close> are taken as given.
\<close>

record Env =
  tokenManagerInitialized :: bool
  markChatCompleted_throws :: "JsError option"
  setItem_throws :: "jsstring \<Rightarrow> jsstring \<Rightarrow> JsError option"
  JSON_parse :: "jsstring \<Rightarrow> Json option"
  JSON_stringify :: "Json \<Rightarrow> jsstring"
  toLowerCase :: "jsstring \<Rightarrow> jsstring"
  characters :: "jsstring \<Rightarrow> Character option"
  isValidCharacterId :: "jsstring \<Rightarrow> bool"

text \<open>
  What the hooks \<open>useChatStore\<close> and \<open>useWeb3\<close> hand to one render of the component.
\<close>

record Props =
  selectedCharacter :: "jsstring option"
  happiness :: "jsstring \<Rightarrow> int option"
  currentScene :: int
  address :: "jsstring option"

section \<open>Effects on the outside world\<close>

text \<open>
  Every call a handler makes to something outside the component is recorded, in order:
  the actions of the chat store, \<open>localStorage\<close>, the token manager, \<open>fetch\<close>, the
  router, the console, \<open>window.dispatchEvent\<close> and \<open>setTimeout\<close>. The closures passed to
  \<open>setTimeout\<close> are the three of the source. \<open>Fetch m url headers body\<close> is
  \<open>fetch(url, {method: m, headers, body})\<close>; the option \<open>cache: 'no-store'\<close> of the
  survey's request is not recorded.
\<close>

datatype Role = User | Assistant

datatype HttpMethod = GET | POST

datatype TimerCallback =
    ClearErrorBanner
  | AdvanceScene int
  | PushRoute jsstring

datatype Effect =
    AddMessage Role MessageContent
  | UpdateHappiness jsstring int
  | SetScene int
  | GetItem jsstring
  | SetItem jsstring jsstring
  | RemoveItem jsstring
  | TokenCheckAccess jsstring
  | MarkChatCompleted jsstring
  | Fetch HttpMethod jsstring "(jsstring \<times> jsstring) list" jsstring
  | RouterPush jsstring
  | DispatchChatCompleted jsstring
  | ConsoleError
  | ConsoleWarn
  | SetTimeout TimerCallback nat

text \<open>
  A run of a handler threads the component's state (\<open>st\<close>), the contents of
  \<open>localStorage\<close> (\<open>ls\<close>) and the log of effects.
\<close>

record 's Run =
  st :: 's
  ls :: "jsstring \<Rightarrow> jsstring option"
  log :: "Effect list"

definition emit :: "Effect \<Rightarrow> 's Run \<Rightarrow> 's Run" where
  "emit e r = r\<lparr>log := log r @ [e]\<rparr>"

definition setState :: "('s \<Rightarrow> 's) \<Rightarrow> 's Run \<Rightarrow> 's Run" where
  "setState f r = r\<lparr>st := f (st r)\<rparr>"

text \<open>A statement either completes or throws; the run so far is kept either way.\<close>

datatype 'r Completion = Done 'r | Thrown JsError 'r

definition andThen :: "'r Completion \<Rightarrow> ('r \<Rightarrow> 'r Completion) \<Rightarrow> 'r Completion" where
  "andThen m f = (case m of Done r \<Rightarrow> f r | Thrown e r \<Rightarrow> Thrown e r)"

definition getItem :: "jsstring \<Rightarrow> 's Run \<Rightarrow> jsstring option \<times> 's Run" where
  "getItem k r = (ls r k, emit (GetItem k) r)"

definition removeItem :: "jsstring \<Rightarrow> 's Run \<Rightarrow> 's Run" where
  "removeItem k r = emit (RemoveItem k) (r\<lparr>ls := (ls r)(k := None)\<rparr>)"

definition setItem :: "Env \<Rightarrow> jsstring \<Rightarrow> jsstring \<Rightarrow> 's Run \<Rightarrow> 's Run Completion" where
  "setItem env k v r =
     (case setItem_throws env k v of
        Some e \<Rightarrow> Thrown e (emit (SetItem k v) r)
      | None \<Rightarrow> Done (emit (SetItem k v) (r\<lparr>ls := (ls r)(k \<mapsto> v)\<rparr>)))"

text \<open>
  \<open>accessData.completed = true; accessData.hasAccess = false\<close> on a parsed value: the
  properties are put on an object; an array takes them without showing them to
  \<open>JSON.stringify\<close>; on \<open>null\<close> and on a primitive the assignment throws (\<open>None\<close>).
\<close>

fun revokeAccessData :: "Json \<Rightarrow> Json option" where
  "revokeAccessData (JObj kvs) =
     Some (JObj (AList.update (lit ''hasAccess'') (JBool False)
                  (AList.update (lit ''completed'') (JBool True) kvs)))"
| "revokeAccessData (JArr xs) = Some (JArr xs)"
| "revokeAccessData _ = None"

section \<open>The chat interface: state, derived values, error banner\<close>

text \<open>
  The \<open>useState\<close> cells of \<open>ChatInterface\<close>, with their initial values
  (\<open>messageStats\<close>, which nothing reads or sets, is left out).
\<close>

record ChatState =
  input :: jsstring
  audioPlaying :: bool
  isTransitioning :: bool
  showEndPopup :: bool
  showOptions :: bool
  currentVideo :: jsstring
  error :: "jsstring option"
  showError :: bool
  hasAccess :: bool
  isCheckingAccess :: bool

definition initialState :: ChatState where
  "initialState =
     \<lparr>input = [], audioPlaying = False, isTransitioning = False, showEndPopup = False,
      showOptions = False, currentVideo = [], error = None, showError = False,
      hasAccess = False, isCheckingAccess = True\<rparr>"

definition initialRun :: "ChatState Run" where
  "initialRun = \<lparr>st = initialState, ls = (\<lambda>k. None), log = []\<rparr>"

text \<open>
  \<open>character\<close>: the table entry when \<open>selectedCharacter\<close> is truthy and a valid id, else
  \<open>null\<close>. \<open>currentSceneOptions\<close>: \<open>character?.scenes[currentScene]?.options || []\<close>.
\<close>

definition character :: "Env \<Rightarrow> Props \<Rightarrow> Character option" where
  "character env p =
     (case selectedCharacter p of
        None \<Rightarrow> None
      | Some c \<Rightarrow> if c \<noteq> [] \<and> isValidCharacterId env c then characters env c else None)"

definition characterLanguage :: "Env \<Rightarrow> Props \<Rightarrow> jsstring option" where
  "characterLanguage env p = (case character env p of None \<Rightarrow> None | Some ch \<Rightarrow> language ch)"

definition currentSceneOptions :: "Env \<Rightarrow> Props \<Rightarrow> ChatOption list" where
  "currentSceneOptions env p =
     (case character env p of
        None \<Rightarrow> []
      | Some ch \<Rightarrow>
          (case scenes ch (currentScene p) of
             None \<Rightarrow> []
           | Some sc \<Rightarrow> (case options sc of None \<Rightarrow> [] | Some os \<Rightarrow> os)))"

text \<open>The storage keys built by template literals.\<close>

definition accessKey :: "Env \<Rightarrow> jsstring \<Rightarrow> jsstring \<Rightarrow> jsstring" where
  "accessKey env a c = lit ''character_access_'' @ toLowerCase env a @ lit ''_'' @ c"

definition happinessKey :: "Env \<Rightarrow> jsstring \<Rightarrow> jsstring \<Rightarrow> jsstring" where
  "happinessKey env a c = lit ''lingobabe_happiness_'' @ toLowerCase env a @ lit ''_'' @ c"

definition sceneKey :: "Env \<Rightarrow> jsstring \<Rightarrow> jsstring \<Rightarrow> jsstring" where
  "sceneKey env c a = lit ''scene_'' @ c @ lit ''_'' @ toLowerCase env a"

text \<open>
  \<open>showErrorMessage\<close>: \<open>setError(message); setShowError(true); setTimeout(..., 5000)\<close>.
\<close>

definition showErrorMessage :: "jsstring \<Rightarrow> ChatState Run \<Rightarrow> ChatState Run" where
  "showErrorMessage msg r =
     emit (SetTimeout ClearErrorBanner 5000)
       (setState (\<lambda>s. s\<lparr>showError := True\<rparr>)
         (setState (\<lambda>s. s\<lparr>error := Some msg\<rparr>) r))"

text \<open>
  What a timer does when it fires. \<open>ClearErrorBanner\<close> is the closure of
  \<open>showErrorMessage\<close> (\<open>setShowError(false); setError(null)\<close>), \<open>AdvanceScene n\<close> the one of
  \<open>handleSend\<close> (\<open>actions.setScene(n); setIsTransitioning(false)\<close>); \<open>PushRoute\<close> is the
  survey's and calls the router.
\<close>

fun runTimer :: "TimerCallback \<Rightarrow> ChatState Run \<Rightarrow> ChatState Run" where
  "runTimer ClearErrorBanner r =
     setState (\<lambda>s. s\<lparr>error := None\<rparr>) (setState (\<lambda>s. s\<lparr>showError := False\<rparr>) r)"
| "runTimer (AdvanceScene n) r =
     setState (\<lambda>s. s\<lparr>isTransitioning := False\<rparr>) (emit (SetScene n) r)"
| "runTimer (PushRoute path) r = emit (RouterPush path) r"

section \<open>The chat interface: access check and access events\<close>

text \<open>
  How the call \<open>window.tokenManager.checkAccess\<close> ends: it resolves with a result whose
  \<open>hasAccess\<close> is given, or it throws or rejects with a reason (a result without
  properties makes \<open>accessResult.hasAccess\<close> throw a \<open>TypeError\<close>, an error object).
\<close>

datatype AccessOutcome = AccessResolved bool | AccessRejected Reason

text \<open>
  The guard of \<open>checkAccess\<close>: the wallet address and the character the check runs with,
  or \<open>None\<close> when \<open>!window.tokenManager?.initialized || !address || !selectedCharacter\<close>.
\<close>

definition checkAccess_args :: "Env \<Rightarrow> Props \<Rightarrow> (jsstring \<times> jsstring) option" where
  "checkAccess_args env p =
     (case (address p, selectedCharacter p) of
        (Some a, Some c) \<Rightarrow>
          if tokenManagerInitialized env \<and> a \<noteq> [] \<and> c \<noteq> [] then Some (a, c) else None
      | _ \<Rightarrow> None)"

text \<open>The early return: \<open>setIsCheckingAccess(false); setHasAccess(false)\<close>.\<close>

definition checkAccess_skip :: "ChatState Run \<Rightarrow> ChatState Run" where
  "checkAccess_skip r =
     setState (\<lambda>s. s\<lparr>hasAccess := False\<rparr>) (setState (\<lambda>s. s\<lparr>isCheckingAccess := False\<rparr>) r)"

text \<open>Up to the \<open>await\<close>: \<open>setIsCheckingAccess(true)\<close> and the call of the token manager.\<close>

definition checkAccess_call :: "jsstring \<Rightarrow> ChatState Run \<Rightarrow> ChatState Run" where
  "checkAccess_call c r =
     emit (TokenCheckAccess c) (setState (\<lambda>s. s\<lparr>isCheckingAccess := True\<rparr>) r)"

text \<open>
  After the \<open>await\<close>: the rest of the \<open>try\<close>, or the \<open>catch\<close>; then the \<open>finally\<close>. In the
  \<open>catch\<close>, \<open>console.error\<close> comes first; on a \<open>null\<close> or \<open>undefined\<close> reason the
  next statement, \<open>setError(error.message || ...)\<close>, throws, so that \<open>setError\<close> and
  \<open>setHasAccess(false)\<close> are skipped and only the \<open>finally\<close> runs.
\<close>

definition checkAccess_settle ::
  "Env \<Rightarrow> jsstring \<Rightarrow> jsstring \<Rightarrow> AccessOutcome \<Rightarrow> ChatState Run \<Rightarrow> ChatState Run" where
  "checkAccess_settle env a c outcome r =
     setState (\<lambda>s. s\<lparr>isCheckingAccess := False\<rparr>)
       (case outcome of
          AccessResolved b \<Rightarrow>
            (let r1 = setState (\<lambda>s. s\<lparr>hasAccess := b\<rparr>) r
             in if \<not> b then removeItem (accessKey env a c) r1 else r1)
        | AccessRejected (ErrorObject e) \<Rightarrow>
            setState (\<lambda>s. s\<lparr>hasAccess := False\<rparr>)
              (setState
                 (\<lambda>s. s\<lparr>error := Some (js_or_str (message e) (lit ''Failed to verify access status''))\<rparr>)
                 (emit ConsoleError r))
        | AccessRejected Nullish \<Rightarrow> emit ConsoleError r)"

definition checkAccess_begin :: "Env \<Rightarrow> Props \<Rightarrow> ChatState Run \<Rightarrow> ChatState Run" where
  "checkAccess_begin env p r =
     (case checkAccess_args env p of
        None \<Rightarrow> checkAccess_skip r
      | Some (a, c) \<Rightarrow> checkAccess_call c r)"

text \<open>The whole of \<open>checkAccess\<close>, given how the token manager answers.\<close>

definition checkAccess :: "Env \<Rightarrow> Props \<Rightarrow> AccessOutcome \<Rightarrow> ChatState Run \<Rightarrow> ChatState Run" where
  "checkAccess env p outcome r =
     (case checkAccess_args env p of
        None \<Rightarrow> checkAccess_skip r
      | Some (a, c) \<Rightarrow> checkAccess_settle env a c outcome (checkAccess_call c r))"

text \<open>
  The listeners for \<open>accessStatusChanged\<close> and \<open>chatCompleted\<close>, given the event's
  \<open>detail\<close>, and the callback handed to \<open>CharacterAccessControl\<close>.
\<close>

definition handleAccessChange ::
  "Props \<Rightarrow> (jsstring \<times> bool) option \<Rightarrow> ChatState Run \<Rightarrow> ChatState Run" where
  "handleAccessChange p detail r =
     (case detail of
        None \<Rightarrow> r
      | Some (characterId, access) \<Rightarrow>
          if selectedCharacter p = Some characterId
          then setState (\<lambda>s. s\<lparr>hasAccess := access\<rparr>) r else r)"

definition handleChatCompleted ::
  "Env \<Rightarrow> Props \<Rightarrow> jsstring option \<Rightarrow> ChatState Run \<Rightarrow> ChatState Run" where
  "handleChatCompleted env p detail r =
     (case detail of
        None \<Rightarrow> r
      | Some characterId \<Rightarrow>
          if selectedCharacter p = Some characterId
          then (let r1 = setState (\<lambda>s. s\<lparr>hasAccess := False\<rparr>) r
                in case address p of
                     None \<Rightarrow> r1
                   | Some a \<Rightarrow> if a \<noteq> [] then removeItem (accessKey env a characterId) r1 else r1)
          else r)"

definition handleAccessGranted :: "ChatState Run \<Rightarrow> ChatState Run" where
  "handleAccessGranted r = setState (\<lambda>s. s\<lparr>hasAccess := True\<rparr>) r"

section \<open>The chat interface: text to speech\<close>

text \<open>
  How one run of \<open>playAudio\<close> goes after its request: \<open>fetch\<close> rejects, the response is
  not \<open>ok\<close>, \<open>arrayBuffer()\<close> rejects, \<open>audio.play()\<close> rejects, or the audio plays.
\<close>

datatype TtsOutcome = TtsFetchRejected | TtsNotOk | TtsBodyRejected | TtsPlayRejected | TtsPlaying

definition ttsRequest :: "Env \<Rightarrow> Props \<Rightarrow> jsstring \<Rightarrow> Effect" where
  "ttsRequest env p txt =
     Fetch POST (lit ''/api/tts'') [(lit ''Content-Type'', lit ''application/json'')]
       (JSON_stringify env
          (JObj [(lit ''text'', JStr txt),
                 (lit ''language'', JStr (js_or_str (characterLanguage env p) (lit ''chinese'')))]))"

definition playAudio :: "Env \<Rightarrow> Props \<Rightarrow> TtsOutcome \<Rightarrow> jsstring \<Rightarrow> ChatState Run \<Rightarrow> ChatState Run" where
  "playAudio env p tts txt r =
     (if txt = [] \<or> audioPlaying (st r) then r
      else
        (let r1 = emit (ttsRequest env p txt) (setState (\<lambda>s. s\<lparr>audioPlaying := True\<rparr>) r)
         in if tts = TtsPlaying then r1
            else showErrorMessage (lit ''Failed to play audio. Please try again.'')
                   (setState (\<lambda>s. s\<lparr>audioPlaying := False\<rparr>) (emit ConsoleError r1))))"

definition handlePlayAudio :: "Env \<Rightarrow> Props \<Rightarrow> TtsOutcome \<Rightarrow> jsstring \<Rightarrow> ChatState Run \<Rightarrow> ChatState Run" where
  "handlePlayAudio env p tts txt r = (if audioPlaying (st r) then r else playAudio env p tts txt r)"

text \<open>\<open>audio.onended\<close>.\<close>

definition audioEnded :: "ChatState Run \<Rightarrow> ChatState Run" where
  "audioEnded r = setState (\<lambda>s. s\<lparr>audioPlaying := False\<rparr>) r"

definition handleOptionSelect :: "jsstring \<Rightarrow> ChatState Run \<Rightarrow> ChatState Run" where
  "handleOptionSelect txt r =
     setState (\<lambda>s. s\<lparr>showOptions := False\<rparr>) (setState (\<lambda>s. s\<lparr>input := txt\<rparr>) r)"

section \<open>The chat interface: sending a message\<close>

text \<open>\<open>opt.chinese || opt.japanese || opt.korean || opt.spanish\<close>.\<close>

definition primaryText :: "'a MessageContent_scheme \<Rightarrow> jsstring option" where
  "primaryText m = js_or (js_or (js_or (chinese m) (japanese m)) (korean m)) (spanish m)"

text \<open>\<open>currentSceneOptions.find(opt => primaryText === input.trim())\<close>.\<close>

definition findOption :: "ChatOption list \<Rightarrow> jsstring \<Rightarrow> ChatOption option" where
  "findOption opts inp = List.find (\<lambda>opt. primaryText opt = Some (trim inp)) opts"

definition messageContent :: "ChatOption \<Rightarrow> MessageContent" where
  "messageContent opt =
     \<lparr>english = english opt, chinese = chinese opt, pinyin = pinyin opt,
      japanese = japanese opt, romaji = romaji opt, korean = korean opt,
      romanized = romanized opt, spanish = spanish opt, video = video opt\<rparr>"

text \<open>\<open>happiness[selectedCharacter] || 50\<close>: a missing entry and the number 0 are falsy.\<close>

definition currentHappiness :: "Props \<Rightarrow> jsstring \<Rightarrow> int" where
  "currentHappiness p c = (case happiness p c of None \<Rightarrow> 50 | Some h \<Rightarrow> if h = 0 then 50 else h)"

definition newHappiness :: "Props \<Rightarrow> jsstring \<Rightarrow> int \<Rightarrow> int" where
  "newHappiness p c pts = min 100 (max 0 (currentHappiness p c + pts))"

text \<open>The block under \<open>typeof selectedOption.points === 'number'\<close>.\<close>

definition send_happiness ::
  "Env \<Rightarrow> Props \<Rightarrow> jsstring \<Rightarrow> jsstring \<Rightarrow> ChatOption \<Rightarrow> ChatState Run \<Rightarrow> ChatState Run Completion" where
  "send_happiness env p a c opt r =
     (case points opt of
        None \<Rightarrow> Done r
      | Some pts \<Rightarrow>
          setItem env (happinessKey env a c) (toString (newHappiness p c pts))
            (emit (UpdateHappiness c pts) r))"

text \<open>The block under \<open>if (selectedOption.response)\<close>; \<open>playAudio\<close> catches its own errors.\<close>

definition send_response ::
  "Env \<Rightarrow> Props \<Rightarrow> TtsOutcome \<Rightarrow> ChatOption \<Rightarrow> ChatState Run \<Rightarrow> ChatState Run" where
  "send_response env p tts opt r =
     (case response opt of
        None \<Rightarrow> r
      | Some resp \<Rightarrow>
          (let r1 = emit (AddMessage Assistant resp) r;
               r2 = (case video resp of
                       None \<Rightarrow> r1
                     | Some v \<Rightarrow> if v \<noteq> [] then setState (\<lambda>s. s\<lparr>currentVideo := v\<rparr>) r1 else r1)
           in case primaryText resp of
                None \<Rightarrow> r2
              | Some t \<Rightarrow> if t \<noteq> [] then playAudio env p tts t r2 else r2))"

text \<open>
  The inner \<open>try\<close> of the last scene: the stored access record is read, marked completed
  and written back; a parse error, a failed assignment and a failed write are caught and
  logged.
\<close>

definition markCompletedInStorage :: "Env \<Rightarrow> jsstring \<Rightarrow> ChatState Run \<Rightarrow> ChatState Run" where
  "markCompletedInStorage env k r =
     (case getItem k r of
        (None, r1) \<Rightarrow> r1
      | (Some stored, r1) \<Rightarrow>
          if stored = [] then r1
          else
            (case Option.bind (JSON_parse env stored) revokeAccessData of
               None \<Rightarrow> emit ConsoleError r1
             | Some accessData \<Rightarrow>
                 (case setItem env k (JSON_stringify env accessData) r1 of
                    Done r2 \<Rightarrow> r2
                  | Thrown e r2 \<Rightarrow> emit ConsoleError r2)))"

text \<open>The branch \<open>currentScene >= 5\<close>.\<close>

definition send_complete :: "Env \<Rightarrow> jsstring \<Rightarrow> jsstring \<Rightarrow> ChatState Run \<Rightarrow> ChatState Run" where
  "send_complete env a c r =
     (let r1 =
        (if tokenManagerInitialized env \<and> c \<noteq> []
         then
           (let r2 = emit (MarkChatCompleted c) (markCompletedInStorage env (accessKey env a c) r)
            in case markChatCompleted_throws env of
                 None \<Rightarrow> setState (\<lambda>s. s\<lparr>hasAccess := False\<rparr>) r2
               | Some e \<Rightarrow> emit ConsoleError r2)
         else r)
      in removeItem (sceneKey env c a) (setState (\<lambda>s. s\<lparr>showEndPopup := True\<rparr>) r1))"

text \<open>The branch \<open>currentScene < 5\<close>.\<close>

definition send_next ::
  "Env \<Rightarrow> Props \<Rightarrow> jsstring \<Rightarrow> jsstring \<Rightarrow> ChatState Run \<Rightarrow> ChatState Run Completion" where
  "send_next env p a c r =
     andThen
       (setItem env (sceneKey env c a) (toString (currentScene p + 1))
          (setState (\<lambda>s. s\<lparr>isTransitioning := True\<rparr>) r))
       (\<lambda>r1. Done (emit (SetTimeout (AdvanceScene (currentScene p + 1)) 1000) r1))"

text \<open>The body of the \<open>try\<close> once an option is found.\<close>

definition send_try ::
  "Env \<Rightarrow> Props \<Rightarrow> TtsOutcome \<Rightarrow> jsstring \<Rightarrow> jsstring \<Rightarrow> ChatOption \<Rightarrow> ChatState Run
     \<Rightarrow> ChatState Run Completion" where
  "send_try env p tts a c opt r =
     andThen (send_happiness env p a c opt (emit (AddMessage User (messageContent opt)) r))
       (\<lambda>r1. andThen
          (let r2 = send_response env p tts opt r1
           in if currentScene p \<ge> 5 then Done (send_complete env a c r2)
              else send_next env p a c r2)
          (\<lambda>r3. Done (setState (\<lambda>s. s\<lparr>showOptions := False\<rparr>)
                        (setState (\<lambda>s. s\<lparr>input := []\<rparr>) r3))))"

text \<open>
  The first guard of \<open>handleSend\<close>: the address and the character it goes on with, or
  \<open>None\<close> when
  \<open>!input.trim() || !selectedCharacter || !character || isTransitioning || !address\<close>.
\<close>

definition send_args :: "Env \<Rightarrow> Props \<Rightarrow> ChatState \<Rightarrow> (jsstring \<times> jsstring) option" where
  "send_args env p s =
     (case (address p, selectedCharacter p) of
        (Some a, Some c) \<Rightarrow>
          if trim (input s) = [] \<or> c = [] \<or> character env p = None \<or> isTransitioning s \<or> a = []
          then None else Some (a, c)
      | _ \<Rightarrow> None)"

text \<open>Which way a call of \<open>handleSend\<close> went.\<close>

datatype SendStatus = InvalidState | InvalidOption | SendCompleted | SendFailed JsError

definition handleSend ::
  "Env \<Rightarrow> Props \<Rightarrow> TtsOutcome \<Rightarrow> ChatState Run \<Rightarrow> SendStatus \<times> ChatState Run" where
  "handleSend env p tts r =
     (case send_args env p (st r) of
        None \<Rightarrow> (InvalidState, showErrorMessage (lit ''Invalid input or connection state'') r)
      | Some (a, c) \<Rightarrow>
          (case findOption (currentSceneOptions env p) (input (st r)) of
             None \<Rightarrow>
               (InvalidOption, showErrorMessage (lit ''Please select a valid response option'') r)
           | Some selectedOption \<Rightarrow>
               (case send_try env p tts a c selectedOption r of
                  Done r' \<Rightarrow> (SendCompleted, r')
                | Thrown e r' \<Rightarrow>
                    (SendFailed e,
                     setState (\<lambda>s. s\<lparr>input := []\<rparr>)
                       (setState (\<lambda>s. s\<lparr>isTransitioning := False\<rparr>)
                          (showErrorMessage (js_or_str (message e) (lit ''Failed to send message''))
                             (emit ConsoleError r')))))))"

section \<open>The chat interface: leaving the chat\<close>

text \<open>A template literal prints \<open>undefined\<close> for a missing value.\<close>

definition template :: "jsstring option \<Rightarrow> jsstring" where
  "template v = (case v of None \<Rightarrow> lit ''undefined'' | Some s \<Rightarrow> s)"

text \<open>The \<open>try\<close> of \<open>handleEndChat\<close>: on any error the stored record is removed.\<close>

definition endChatStorage :: "Env \<Rightarrow> jsstring \<Rightarrow> ChatState Run \<Rightarrow> ChatState Run" where
  "endChatStorage env k r =
     (case getItem k r of
        (None, r1) \<Rightarrow> r1
      | (Some stored, r1) \<Rightarrow>
          if stored = [] then r1
          else
            (case Option.bind (JSON_parse env stored) revokeAccessData of
               None \<Rightarrow> removeItem k r1
             | Some accessData \<Rightarrow>
                 (case setItem env k (JSON_stringify env accessData) r1 of
                    Done r2 \<Rightarrow> r2
                  | Thrown e r2 \<Rightarrow> removeItem k r2)))"

text \<open>
  \<open>handleEndChat\<close>; the \<open>chatCompleted\<close> event it dispatches is delivered at once to the
  component's own listener.
\<close>

definition handleEndChat :: "Env \<Rightarrow> Props \<Rightarrow> ChatState Run \<Rightarrow> ChatState Run" where
  "handleEndChat env p r =
     (let r0 = setState (\<lambda>s. s\<lparr>showEndPopup := False\<rparr>) r
      in case (selectedCharacter p, address p) of
           (Some c, Some a) \<Rightarrow>
             if c \<noteq> [] \<and> a \<noteq> []
             then
               (let r1 = setState (\<lambda>s. s\<lparr>hasAccess := False\<rparr>) r0;
                    r2 = endChatStorage env (accessKey env a c) r1;
                    r3 = handleChatCompleted env p (Some c) (emit (DispatchChatCompleted c) r2)
                in emit (RouterPush (lit ''/chat/'' @ template (characterLanguage env p))) r3)
             else emit (RouterPush (lit ''/'')) r0
         | _ \<Rightarrow> emit (RouterPush (lit ''/'')) r0)"

definition handleReturnToSelection :: "Env \<Rightarrow> Props \<Rightarrow> ChatState Run \<Rightarrow> ChatState Run" where
  "handleReturnToSelection env p r =
     emit (RouterPush (lit ''/chat/'' @ js_or_str (characterLanguage env p) [])) r"

text \<open>The \<open>onBack\<close> of the header, and the button of the end popup.\<close>

definition onBack :: "Env \<Rightarrow> Props \<Rightarrow> ChatState Run \<Rightarrow> ChatState Run" where
  "onBack env p r = emit (RouterPush (lit ''/chat/'' @ template (characterLanguage env p))) r"

definition backToTutors :: "Env \<Rightarrow> Props \<Rightarrow> ChatState Run \<Rightarrow> ChatState Run" where
  "backToTutors env p r =
     emit (RouterPush (lit ''/chat/'' @ template (characterLanguage env p)))
       (setState (\<lambda>s. s\<lparr>showEndPopup := False\<rparr>) r)"

section \<open>The chat interface: what is rendered\<close>

text \<open>
  The three screens of the component. The chat screen carries what the claims read off
  it: the error banner (\<open>showError && error\<close>), the happiness handed to the header
  (\<open>happiness[selectedCharacter || ''] || 50\<close>), whether the send button is disabled, and
  whether the option list and the end popup are shown.
\<close>

record ChatView =
  banner :: "jsstring option"
  shownHappiness :: int
  sendDisabled :: bool
  optionsVisible :: bool
  endPopupVisible :: bool

datatype Screen = VerifyingAccess | AccessControlScreen | ChatScreen ChatView

definition chatView :: "Env \<Rightarrow> Props \<Rightarrow> ChatState \<Rightarrow> ChatView" where
  "chatView env p s =
     \<lparr>banner = (if showError s \<and> truthy (error s) then error s else None),
      shownHappiness = currentHappiness p (js_or_str (selectedCharacter p) []),
      sendDisabled = (trim (input s) = [] \<or> isTransitioning s),
      optionsVisible = (showOptions s \<and> currentSceneOptions env p \<noteq> []),
      endPopupVisible = showEndPopup s\<rparr>"

definition render :: "Env \<Rightarrow> Props \<Rightarrow> ChatState \<Rightarrow> Screen" where
  "render env p s =
     (if isCheckingAccess s then VerifyingAccess
      else if \<not> hasAccess s \<and> truthy (selectedCharacter p) then AccessControlScreen
      else ChatScreen (chatView env p s))"

section \<open>The chat interface: everything that can happen to a mounted component\<close>

text \<open>
  One event is one uninterrupted piece of the component's code: an effect run up to its
  \<open>await\<close>, the rest of it when the promise settles, a listener, a callback, a click
  handler, a timer. Each carries the environment and the props its closure saw.
\<close>

datatype Event =
    CheckAccessBegins Env Props
  | CheckAccessSettles Env jsstring jsstring AccessOutcome
  | AccessStatusChanged Props "(jsstring \<times> bool) option"
  | ChatCompleted Env Props "jsstring option"
  | AccessGranted
  | PlayAudioClicked Env Props TtsOutcome jsstring
  | AudioEnded
  | OptionSelected jsstring
  | OptionsToggled
  | SendClicked Env Props TtsOutcome
  | EndChat Env Props
  | ReturnToSelection Env Props
  | Back Env Props
  | BackToTutors Env Props
  | TimerFired TimerCallback

fun step :: "Event \<Rightarrow> ChatState Run \<Rightarrow> ChatState Run" where
  "step (CheckAccessBegins env p) r = checkAccess_begin env p r"
| "step (CheckAccessSettles env a c outcome) r = checkAccess_settle env a c outcome r"
| "step (AccessStatusChanged p detail) r = handleAccessChange p detail r"
| "step (ChatCompleted env p detail) r = handleChatCompleted env p detail r"
| "step AccessGranted r = handleAccessGranted r"
| "step (PlayAudioClicked env p tts txt) r = handlePlayAudio env p tts txt r"
| "step AudioEnded r = audioEnded r"
| "step (OptionSelected txt) r = handleOptionSelect txt r"
| "step OptionsToggled r = setState (\<lambda>s. s\<lparr>showOptions := \<not> showOptions s\<rparr>) r"
| "step (SendClicked env p tts) r = snd (handleSend env p tts r)"
| "step (EndChat env p) r = handleEndChat env p r"
| "step (ReturnToSelection env p) r = handleReturnToSelection env p r"
| "step (Back env p) r = onBack env p r"
| "step (BackToTutors env p) r = backToTutors env p r"
| "step (TimerFired cb) r = runTimer cb r"




section \<open>The welcome survey: the daily-goal page and the success page\<close>

text \<open>
  Modelled from the spec: the type of the survey answers, declared in the survey context,
  which is not among the sources. The spec has them as "survey answers (flat key/value per
  step)"; the pages put strings under \<open>referralSource\<close>, \<open>motivation\<close> and
  \<open>dailyGoal\<close>. An association list keeps the order of the fields.
\<close>

type_synonym SurveyData = "(jsstring \<times> jsstring) list"

definition dailyGoal :: "SurveyData \<Rightarrow> jsstring option" where
  "dailyGoal surveyData = map_of surveyData (lit ''dailyGoal'')"

text \<open>The object \<open>JSON.stringify(surveyData)\<close> is given.\<close>

definition surveyObject :: "SurveyData \<Rightarrow> Json" where
  "surveyObject surveyData = JObj (map (\<lambda>(k, v). (k, JStr v)) surveyData)"

record SurveyState =
  isSubmitting :: bool
  surveyError :: "jsstring option"
  showLoadingScreen :: bool

definition initialSurveyState :: SurveyState where
  "initialSurveyState = \<lparr>isSubmitting = False, surveyError = None, showLoadingScreen = False\<rparr>"

text \<open>
  How the request of \<open>handleSubmit\<close> goes: \<open>fetch\<close> rejects, or a response arrives,
  \<open>ok\<close> or not, whose \<open>json()\<close> resolves (\<open>None\<close>) or rejects.
\<close>

datatype SubmitOutcome = FetchRejected JsError | Responded bool "JsError option"

definition surveyDataKey :: jsstring where
  "surveyDataKey = lit ''lingobabe_survey_data''"

definition surveyCompletedKey :: jsstring where
  "surveyCompletedKey = lit ''lingobabe_survey_completed''"

definition successPath :: jsstring where
  "successPath = lit ''/welcome-survey/success''"

definition submitRequest :: "Env \<Rightarrow> SurveyData \<Rightarrow> Effect" where
  "submitRequest env surveyData =
     Fetch POST (lit ''/api/submit-survey'') [(lit ''Content-Type'', lit ''application/json'')]
       (JSON_stringify env (surveyObject surveyData))"

text \<open>
  Which way a call of \<open>handleSubmit\<close> went: the guard returned, the handler ran to its
  end, or an exception left the \<open>catch\<close> block.
\<close>

datatype SubmitStatus = NotSubmitted | Submitted | SubmitThrew JsError

text \<open>The second \<open>try\<close> of \<open>handleSubmit\<close>, from the answer of the request on.\<close>

definition submit_try :: "Env \<Rightarrow> SubmitOutcome \<Rightarrow> SurveyState Run \<Rightarrow> SurveyState Run Completion" where
  "submit_try env outcome r =
     (case outcome of
        FetchRejected e \<Rightarrow> Thrown e r
      | Responded ok (Some e) \<Rightarrow> Thrown e r
      | Responded ok None \<Rightarrow>
          andThen (setItem env surveyCompletedKey (lit ''true'') r)
            (\<lambda>r1. Done (emit (SetTimeout (PushRoute successPath) 1500) r1)))"

text \<open>Its \<open>catch\<close>: nothing catches what this block throws.\<close>

definition submit_catch :: "Env \<Rightarrow> SurveyState Run \<Rightarrow> SurveyState Run Completion" where
  "submit_catch env r =
     andThen (setItem env surveyCompletedKey (lit ''true'') (emit ConsoleError r))
       (\<lambda>r1. Done (emit (RouterPush successPath) r1))"

definition handleSubmit ::
  "Env \<Rightarrow> SurveyData \<Rightarrow> SubmitOutcome \<Rightarrow> SurveyState Run \<Rightarrow> SubmitStatus \<times> SurveyState Run" where
  "handleSubmit env surveyData outcome r =
     (if \<not> truthy (dailyGoal surveyData) \<or> isSubmitting (st r) then (NotSubmitted, r)
      else
        (let r1 = setState (\<lambda>s. s\<lparr>showLoadingScreen := True\<rparr>)
                    (setState (\<lambda>s. s\<lparr>isSubmitting := True\<rparr>) r);
             r2 = (case setItem env surveyDataKey (JSON_stringify env (surveyObject surveyData)) r1 of
                     Done r' \<Rightarrow> r'
                   | Thrown e r' \<Rightarrow> emit ConsoleWarn r');
             r3 = emit (submitRequest env surveyData) r2
         in case submit_try env outcome r3 of
              Done r4 \<Rightarrow> (Submitted, r4)
            | Thrown e r4 \<Rightarrow>
                (case submit_catch env r4 of
                   Done r5 \<Rightarrow> (Submitted, r5)
                 | Thrown e' r5 \<Rightarrow> (SubmitThrew e', r5))))"

text \<open>
  What the daily-goal page renders: the loading screen, or the form with the
  \<open>disabled\<close> attribute of its submit button.
\<close>

datatype SurveyScreen = LoadingScreen | DailyGoalForm (submitDisabled: bool)

definition renderDailyGoal :: "SurveyData \<Rightarrow> SurveyState \<Rightarrow> SurveyScreen" where
  "renderDailyGoal surveyData s =
     (if showLoadingScreen s then LoadingScreen
      else DailyGoalForm (\<not> truthy (dailyGoal surveyData) \<or> isSubmitting s))"

text \<open>
  The effect of the success page when it mounts: it sets the completion flag again and
  schedules the way on.
\<close>

definition successPageMounted :: "Env \<Rightarrow> 's Run \<Rightarrow> 's Run Completion" where
  "successPageMounted env r =
     andThen (setItem env surveyCompletedKey (lit ''true'') r)
       (\<lambda>r1. Done (emit (SetTimeout (PushRoute (lit ''/welcome-survey/benefits'')) 2000) r1))"

text \<open>A navigation timer of the survey fires.\<close>

fun runRouteTimer :: "TimerCallback \<Rightarrow> 's Run \<Rightarrow> 's Run" where
  "runRouteTimer (PushRoute path) r = emit (RouterPush path) r"
| "runRouteTimer _ r = r"

text \<open>Whether an effect, and whether a log, takes the user to a page, at once or by a timer.\<close>

fun navigates :: "jsstring \<Rightarrow> Effect \<Rightarrow> bool" where
  "navigates path (RouterPush q) = (q = path)"
| "navigates path (SetTimeout (PushRoute q) ms) = (q = path)"
| "navigates path _ = False"

definition navigatesTo :: "jsstring \<Rightarrow> Effect list \<Rightarrow> bool" where
  "navigatesTo path effects = list_ex (navigates path) effects"

section \<open>Reading a run\<close>

text \<open>The run a statement leaves behind, completed or not.\<close>

definition runOf :: "'r Completion \<Rightarrow> 'r" where
  "runOf m = (case m of Done r \<Rightarrow> r | Thrown e r \<Rightarrow> r)"

text \<open>The effects a handler added to the log: those of \<open>r'\<close> after those of \<open>r\<close>.\<close>

definition newEffects :: "'s Run \<Rightarrow> 's Run \<Rightarrow> Effect list" where
  "newEffects r r' = drop (length (log r)) (log r')"

text \<open>\<open>r'\<close> continues the log of \<open>r\<close>, and every effect it adds satisfies \<open>P\<close>.\<close>

definition yields :: "(Effect \<Rightarrow> bool) \<Rightarrow> 's Run \<Rightarrow> 't Run \<Rightarrow> bool" where
  "yields P r r' =
     (take (length (log r)) (log r') = log r \<and> list_all P (drop (length (log r)) (log r')))"

text \<open>
  \<open>r'\<close> continues the log of \<open>r\<close>, and if the error banner's flag is up in \<open>r'\<close> it was up
  in \<open>r\<close> already or the handler has scheduled the timer that takes it down.
\<close>

definition bannerTimed :: "ChatState Run \<Rightarrow> ChatState Run \<Rightarrow> bool" where
  "bannerTimed r r' =
     (yields (\<lambda>e. True) r r'
      \<and> (showError (st r') \<longrightarrow>
           showError (st r) \<or> SetTimeout ClearErrorBanner 5000 \<in> set (newEffects r r')))"

fun isFetch :: "Effect \<Rightarrow> bool" where
  "isFetch (Fetch m url headers body) = True"
| "isFetch _ = False"

text \<open>The effects that enter a scene: the store's \<open>setScene\<close>, and the timer that calls it.\<close>

fun entersScene :: "Effect \<Rightarrow> bool" where
  "entersScene (SetScene n) = True"
| "entersScene (SetTimeout (AdvanceScene n) ms) = True"
| "entersScene _ = False"

text \<open>The effects that change the chat: a message, the happiness, the scene.\<close>

fun changesChat :: "Effect \<Rightarrow> bool" where
  "changesChat (AddMessage role content) = True"
| "changesChat (UpdateHappiness c pts) = True"
| "changesChat e = entersScene e"

section \<open>The chat interface on the clock\<close>

text \<open>
  A mounted component together with the time in milliseconds and the pending timeouts,
  each with the time at which it is due: \<open>setTimeout(f, ms)\<close> called at time \<open>t\<close> is due
  at \<open>t + ms\<close>. The source never calls \<open>clearTimeout\<close>, so a timeout stays pending until
  it fires.
\<close>

record Mounted =
  comp :: "ChatState Run"
  clock :: nat
  timers :: "(nat \<times> TimerCallback) list"

definition mounted :: "ChatState Run \<Rightarrow> Mounted" where
  "mounted r = \<lparr>comp = r, clock = 0, timers = []\<rparr>"

text \<open>The timeouts among the effects of a handler that ran at time \<open>t\<close>.\<close>

fun scheduled :: "nat \<Rightarrow> Effect list \<Rightarrow> (nat \<times> TimerCallback) list" where
  "scheduled t [] = []"
| "scheduled t (SetTimeout cb ms # es) = (t + ms, cb) # scheduled t es"
| "scheduled t (e # es) = scheduled t es"

fun fireAll :: "(nat \<times> TimerCallback) list \<Rightarrow> ChatState Run \<Rightarrow> ChatState Run" where
  "fireAll [] r = r"
| "fireAll (dc # dcs) r = fireAll dcs (runTimer (snd dc) r)"

text \<open>
  The clock moves to \<open>t\<close>: the timeouts due by then fire, the earliest first and those
  due together in the order they were set; the others stay pending. No callback of the
  source sets a timeout of its own.
\<close>

definition fireDue :: "nat \<Rightarrow> Mounted \<Rightarrow> Mounted" where
  "fireDue t w =
     w\<lparr>comp := fireAll (sort_key fst (filter (\<lambda>dc. fst dc \<le> t) (timers w))) (comp w),
       clock := t,
       timers := filter (\<lambda>dc. \<not> fst dc \<le> t) (timers w)\<rparr>"

text \<open>
  An event \<open>delay\<close> milliseconds after the last one: the timeouts due by then fire, the
  handler of the event runs, and the timeouts it sets are added to the pending ones. As in
  \<open>step\<close>, a handler runs to its end at the time of its event, the results it awaits
  being given with the event.
\<close>

definition timedStep :: "nat \<times> Event \<Rightarrow> Mounted \<Rightarrow> Mounted" where
  "timedStep de w =
     (let w1 = fireDue (clock w + fst de) w;
          r' = step (snd de) (comp w1)
      in w1\<lparr>comp := r',
            timers := timers w1 @ scheduled (clock w1) (newEffects (comp w1) r')\<rparr>)"

fun timedRun :: "(nat \<times> Event) list \<Rightarrow> Mounted \<Rightarrow> Mounted" where
  "timedRun [] w = w"
| "timedRun (de # des) w = timedRun des (timedStep de w)"

text \<open>
  While the error banner's flag is up, a timeout that takes it down is pending and due
  within 5000 milliseconds.
\<close>

definition bannerCovered :: "Mounted \<Rightarrow> bool" where
  "bannerCovered w =
     (showError (st (comp w))
      \<longrightarrow> list_ex (\<lambda>dc. snd dc = ClearErrorBanner \<and> fst dc \<le> clock w + 5000) (timers w))"

section \<open>Example data\<close>

text \<open>
  A character with five scenes of two options each: one option with points and a
  response, one with neither. The texts are given by their code units.
\<close>

definition asciiLower :: "jsstring \<Rightarrow> jsstring" where
  "asciiLower s = map (\<lambda>c. if 65 \<le> c \<and> c \<le> 90 then c + 32 else c) s"

definition helloReply :: MessageContent where
  "helloReply =
     \<lparr>english = Some (lit ''Nice to meet you''), chinese = Some [24456, 39640, 20852],
      pinyin = Some (lit ''hen gaoxing''), japanese = None, romaji = None, korean = None,
      romanized = None, spanish = None, video = None\<rparr>"

definition helloOption :: ChatOption where
  "helloOption =
     \<lparr>english = Some (lit ''Hello''), chinese = Some [20320, 22909],
      pinyin = Some (lit ''ni hao''), japanese = None, romaji = None, korean = None,
      romanized = None, spanish = None, video = None,
      points = Some 10, response = Some helloReply\<rparr>"

definition plainOption :: ChatOption where
  "plainOption =
     \<lparr>english = Some (lit ''Thanks''), chinese = Some [35874, 35874],
      pinyin = Some (lit ''xiexie''), japanese = None, romaji = None, korean = None,
      romanized = None, spanish = None, video = None,
      points = None, response = None\<rparr>"

definition mei :: Character where
  "mei =
     \<lparr>language = Some (lit ''chinese''),
      scenes = (\<lambda>n. if 1 \<le> n \<and> n \<le> 5
                    then Some \<lparr>options = Some [helloOption, plainOption]\<rparr> else None)\<rparr>"

text \<open>
  A rendering of JSON values for the examples (texts without quotes or control characters
  need no escaping).
\<close>

fun commaSep :: "jsstring list \<Rightarrow> jsstring" where
  "commaSep [] = []"
| "commaSep [x] = x"
| "commaSep (x # y # ys) = x @ 44 # commaSep (y # ys)"

fun showJson :: "Json \<Rightarrow> jsstring" where
  "showJson JNull = lit ''null''"
| "showJson (JBool b) = (if b then lit ''true'' else lit ''false'')"
| "showJson (JNum n) = toString n"
| "showJson (JStr s) = 34 # s @ [34]"
| "showJson (JArr xs) = 91 # commaSep (map showJson xs) @ [93]"
| "showJson (JObj kvs) =
     123 # commaSep (map (\<lambda>kv. 34 # fst kv @ [34, 58] @ showJson (snd kv)) kvs) @ [125]"

definition demoEnv :: Env where
  "demoEnv =
     \<lparr>tokenManagerInitialized = True, markChatCompleted_throws = None,
      setItem_throws = (\<lambda>k v. None), JSON_parse = (\<lambda>s. None), JSON_stringify = showJson,
      toLowerCase = asciiLower,
      characters = (\<lambda>c. if c = lit ''mei'' then Some mei else None),
      isValidCharacterId = (\<lambda>c. c = lit ''mei'')\<rparr>"

definition demoProps :: Props where
  "demoProps =
     \<lparr>selectedCharacter = Some (lit ''mei''), happiness = (\<lambda>c. None), currentScene = 1,
      address = Some (lit ''0xAB'')\<rparr>"

text \<open>A run of the mounted component in which access has been granted.\<close>

definition chattingRun :: "ChatState Run" where
  "chattingRun = setState (\<lambda>s. s\<lparr>hasAccess := True, isCheckingAccess := False\<rparr>) initialRun"

text \<open>The same run after an option text has been put into the input.\<close>

definition typingRun :: "jsstring \<Rightarrow> ChatState Run" where
  "typingRun words = setState (\<lambda>s. s\<lparr>input := words\<rparr>) chattingRun"

text \<open>
  Send is clicked on an empty input three times, 3000 milliseconds apart, the first time
  as the clock starts: \<open>twoBanners\<close> is the component after the second click,
  \<open>thirdBanner\<close> the component after the third.
\<close>

definition emptySend :: Event where
  "emptySend = SendClicked demoEnv demoProps TtsPlaying"

definition twoBanners :: Mounted where
  "twoBanners = timedRun [(0, emptySend), (3000, emptySend)] (mounted chattingRun)"

definition thirdBanner :: Mounted where
  "thirdBanner = timedStep (3000, emptySend) twoBanners"

definition surveyRun :: "SurveyState Run" where
  "surveyRun = \<lparr>st = initialSurveyState, ls = (\<lambda>k. None), log = []\<rparr>"

text \<open>The daily-goal page while a submission is under way.\<close>

definition submittingRun :: "SurveyState Run" where
  "submittingRun =
     setState (\<lambda>s. s\<lparr>isSubmitting := True, showLoadingScreen := True\<rparr>) surveyRun"

text \<open>A browser whose storage refuses every write.\<close>

definition fullStorageEnv :: Env where
  "fullStorageEnv =
     demoEnv\<lparr>setItem_throws := (\<lambda>k v. Some (JsError (Some (lit ''QuotaExceededError''))))\<rparr>"

definition demoSurvey :: SurveyData where
  "demoSurvey =
     [(lit ''referralSource'', lit ''TIKTOK''), (lit ''motivation'', lit ''OTHER''),
      (lit ''dailyGoal'', lit ''10 MIN/DAY'')]"

section \<open>Reading a run: basic facts\<close>

lemmas run_defs = emit_def setState_def removeItem_def getItem_def

text \<open>The definitions that evaluate the examples.\<close>

lemmas demo_defs = demoEnv_def demoProps_def mei_def helloOption_def plainOption_def helloReply_def
  chattingRun_def typingRun_def initialRun_def initialState_def asciiLower_def

lemmas send_defs = handleSend_def send_args_def character_def characterLanguage_def
  currentSceneOptions_def findOption_def primaryText_def js_or_def js_or_str_def truthy_def
  trim_def isWhiteSpace_def send_try_def send_happiness_def send_response_def send_complete_def
  send_next_def markCompletedInStorage_def andThen_def setItem_def playAudio_def ttsRequest_def
  showErrorMessage_def messageContent_def currentHappiness_def newHappiness_def
  happinessKey_def sceneKey_def accessKey_def toString_def nat_digits.simps Let_def
  newEffects_def

lemma demo_currentSceneOptions:
  "currentSceneOptions demoEnv demoProps = [helloOption, plainOption]"
  by (simp add: currentSceneOptions_def character_def demoEnv_def demoProps_def mei_def)

lemma runOf_simps [simp]: "runOf (Done r) = r" "runOf (Thrown e r) = r"
  by (simp_all add: runOf_def)

lemma yields_iff: "yields P r r' \<longleftrightarrow> (\<exists>xs. log r' = log r @ xs \<and> (\<forall>e\<in>set xs. P e))"
proof
  assume "yields P r r'"
  then have "log r' = log r @ drop (length (log r)) (log r')"
    and "\<forall>e\<in>set (drop (length (log r)) (log r')). P e"
    by (simp_all add: yields_def list_all_iff) (metis append_take_drop_id)
  then show "\<exists>xs. log r' = log r @ xs \<and> (\<forall>e\<in>set xs. P e)" by blast
next
  assume "\<exists>xs. log r' = log r @ xs \<and> (\<forall>e\<in>set xs. P e)"
  then show "yields P r r'" by (auto simp: yields_def list_all_iff)
qed

lemma yields_refl [simp]: "yields P r r"
  by (simp add: yields_iff)

lemma yields_trans: "yields P r r1 \<Longrightarrow> yields P r1 r2 \<Longrightarrow> yields P r r2"
  by (auto simp: yields_iff)

lemma yields_emit: "P e \<Longrightarrow> yields P r r1 \<Longrightarrow> yields P r (emit e r1)"
  by (auto simp: yields_iff emit_def)

lemma yields_setState: "yields P r r1 \<Longrightarrow> yields P r (setState f r1)"
  by (auto simp: yields_iff setState_def)

lemma yields_new: "yields P r r' \<Longrightarrow> e \<in> set (newEffects r r') \<Longrightarrow> P e"
  by (auto simp: yields_iff newEffects_def)

lemma yields_split:
  assumes "yields P r r1" "yields Q r1 r2"
  shows "newEffects r r2 = newEffects r r1 @ newEffects r1 r2"
  using assms by (auto simp: yields_iff newEffects_def)

lemma yields_setItem: "P (SetItem k v) \<Longrightarrow> yields P r (runOf (setItem env k v r))"
  by (simp add: setItem_def yields_iff emit_def split: option.splits)

lemma yields_removeItem: "P (RemoveItem k) \<Longrightarrow> yields P r (removeItem k r)"
  by (simp add: removeItem_def yields_iff emit_def)

lemma yields_showErrorMessage:
  "P (SetTimeout ClearErrorBanner 5000) \<Longrightarrow> yields P r (showErrorMessage msg r)"
  by (simp add: showErrorMessage_def yields_iff run_defs)

section \<open>The access check\<close>

lemma checkAccess_args_None:
  "checkAccess_args env p = None \<longleftrightarrow>
     (\<not> tokenManagerInitialized env \<or> \<not> truthy (address p) \<or> \<not> truthy (selectedCharacter p))"
  by (auto simp: checkAccess_args_def truthy_def split: option.splits)

text \<open>
  What \<open>checkAccess\<close> leaves behind when it fails. The access-checking state is cleared
  in every case. \<open>hasAccess\<close> is set to false by the early return and by the \<open>catch\<close> of
  an error object; when the token manager rejects with \<open>null\<close> or \<open>undefined\<close>, the
  \<open>catch\<close> block itself throws and \<open>hasAccess\<close> and the error text keep their values.
  Nothing raises the banner, touches the storage or schedules a timer.
\<close>

lemma checkAccess_failure:
  assumes "\<not> tokenManagerInitialized env \<or> \<not> truthy (address p)
           \<or> \<not> truthy (selectedCharacter p) \<or> (\<exists>reason. outcome = AccessRejected reason)"
  shows "isCheckingAccess (st (checkAccess env p outcome r)) = False
         \<and> hasAccess (st (checkAccess env p outcome r)) =
             (if checkAccess_args env p \<noteq> None \<and> outcome = AccessRejected Nullish
              then hasAccess (st r) else False)
         \<and> showError (st (checkAccess env p outcome r)) = showError (st r)
         \<and> ls (checkAccess env p outcome r) = ls r
         \<and> newEffects r (checkAccess env p outcome r) =
             (case checkAccess_args env p of
                None \<Rightarrow> []
              | Some (a, c) \<Rightarrow> [TokenCheckAccess c, ConsoleError])"
proof (cases "checkAccess_args env p")
  case None
  then show ?thesis
    by (simp add: checkAccess_def checkAccess_skip_def run_defs newEffects_def)
next
  case (Some ac)
  then have "\<exists>reason. outcome = AccessRejected reason"
    using assms checkAccess_args_None [of env p] by auto
  then obtain reason where "outcome = AccessRejected reason" ..
  with Some show ?thesis
    by (cases ac; cases reason)
       (simp_all add: checkAccess_def checkAccess_call_def checkAccess_settle_def run_defs
          newEffects_def)
qed

text \<open>
  Claim C4 fails on the code where \<open>tokenManager.checkAccess\<close> rejects with \<open>null\<close> or
  \<open>undefined\<close>: with access held from an earlier check, the check with the token manager
  initialized, a wallet address and a character fails, the access-checking state is
  cleared, and \<open>hasAccess\<close> is still true, against the comment \<open>Default to no access on
  error\<close> of the \<open>catch\<close> block. With an error object the same check ends without access.
\<close>

theorem checkAccess_nullish_rejection_keeps_access:
  "hasAccess (st chattingRun)
   \<and> checkAccess_args demoEnv demoProps = Some (lit ''0xAB'', lit ''mei'')
   \<and> hasAccess (st (checkAccess demoEnv demoProps (AccessRejected Nullish) chattingRun))
   \<and> isCheckingAccess (st (checkAccess demoEnv demoProps (AccessRejected Nullish) chattingRun)) = False
   \<and> render demoEnv demoProps
        (st (checkAccess demoEnv demoProps (AccessRejected Nullish) chattingRun))
      = ChatScreen (chatView demoEnv demoProps
          (st (checkAccess demoEnv demoProps (AccessRejected Nullish) chattingRun)))
   \<and> hasAccess (st (checkAccess demoEnv demoProps (AccessRejected (ErrorObject (JsError None)))
        chattingRun)) = False"
proof -
  have args: "checkAccess_args demoEnv demoProps = Some (lit ''0xAB'', lit ''mei'')"
    by (simp add: checkAccess_args_def demoEnv_def demoProps_def)
  have held: "hasAccess (st chattingRun)"
    by (simp add: chattingRun_def setState_def initialRun_def initialState_def)
  have h: "\<not> tokenManagerInitialized demoEnv \<or> \<not> truthy (address demoProps)
           \<or> \<not> truthy (selectedCharacter demoProps)
           \<or> (\<exists>reason. outcome = AccessRejected reason)"
    if "outcome = AccessRejected reason'" for outcome reason'
    using that by simp
  note nullish = checkAccess_failure [OF h [of "AccessRejected Nullish" Nullish], of chattingRun]
  note object = checkAccess_failure
    [OF h [of "AccessRejected (ErrorObject (JsError None))" "ErrorObject (JsError None)"],
     of chattingRun]
  from nullish object args held show ?thesis
    by (simp add: render_def demoProps_def truthy_def)
qed

section \<open>Sending a message: the effects and the state it can touch\<close>

lemma yields_playAudio:
  assumes "txt \<noteq> [] \<Longrightarrow> P (ttsRequest env p txt)"
    and "P ConsoleError" and "P (SetTimeout ClearErrorBanner 5000)"
  shows "yields P r (playAudio env p tts txt r)"
  using assms by (simp add: playAudio_def Let_def showErrorMessage_def yields_iff run_defs)

lemma yields_send_happiness:
  assumes "\<And>pts. points opt = Some pts \<Longrightarrow> P (UpdateHappiness c pts)"
    and "\<And>pts. points opt = Some pts \<Longrightarrow>
           P (SetItem (happinessKey env a c) (toString (newHappiness p c pts)))"
  shows "yields P r (runOf (send_happiness env p a c opt r))"
  using assms
  by (simp add: send_happiness_def setItem_def yields_iff emit_def split: option.splits)

lemma yields_send_response:
  assumes "\<And>resp. response opt = Some resp \<Longrightarrow> P (AddMessage Assistant resp)"
    and "\<And>resp t. response opt = Some resp \<Longrightarrow> primaryText resp = Some t \<Longrightarrow> t \<noteq> []
           \<Longrightarrow> P (ttsRequest env p t)"
    and "P ConsoleError" and "P (SetTimeout ClearErrorBanner 5000)"
  shows "yields P r (send_response env p tts opt r)"
proof (cases "response opt")
  case None
  then show ?thesis by (simp add: send_response_def)
next
  case (Some resp)
  define r1 where "r1 = emit (AddMessage Assistant resp) r"
  define r2 where "r2 = (case video resp of None \<Rightarrow> r1
     | Some v \<Rightarrow> if v \<noteq> [] then setState (\<lambda>s. s\<lparr>currentVideo := v\<rparr>) r1 else r1)"
  have eq: "send_response env p tts opt r =
      (case primaryText resp of None \<Rightarrow> r2
       | Some t \<Rightarrow> if t \<noteq> [] then playAudio env p tts t r2 else r2)"
    unfolding send_response_def r2_def r1_def using Some by (simp add: Let_def)
  have y1: "yields P r r1"
    unfolding r1_def using assms(1) [OF Some] by (simp add: yields_emit)
  have y2: "yields P r r2"
    unfolding r2_def using y1 by (simp add: yields_setState split: option.splits)
  show ?thesis
  proof (cases "primaryText resp")
    case None
    with y2 show ?thesis by (simp add: eq)
  next
    case (Some t)
    have "yields P r2 (playAudio env p tts t r2)"
      using assms(2) [OF \<open>response opt = Some resp\<close> Some] assms(3,4)
      by (intro yields_playAudio) auto
    with y2 have "yields P r (playAudio env p tts t r2)" by (rule yields_trans)
    with Some y2 show ?thesis by (simp add: eq)
  qed
qed

lemma yields_markCompletedInStorage:
  assumes "P (GetItem k)" and "\<And>v. P (SetItem k v)" and "P ConsoleError"
  shows "yields P r (markCompletedInStorage env k r)"
  using assms
  by (simp add: markCompletedInStorage_def setItem_def yields_iff run_defs
        split: option.splits)

lemma yields_send_complete:
  assumes "P (GetItem (accessKey env a c))" and "\<And>v. P (SetItem (accessKey env a c) v)"
    and "P ConsoleError" and "tokenManagerInitialized env \<Longrightarrow> P (MarkChatCompleted c)"
    and "P (RemoveItem (sceneKey env c a))"
  shows "yields P r (send_complete env a c r)"
proof -
  define r1 where "r1 = (if tokenManagerInitialized env \<and> c \<noteq> []
         then
           (let r2 = emit (MarkChatCompleted c) (markCompletedInStorage env (accessKey env a c) r)
            in case markChatCompleted_throws env of
                 None \<Rightarrow> setState (\<lambda>s. s\<lparr>hasAccess := False\<rparr>) r2
               | Some e \<Rightarrow> emit ConsoleError r2)
         else r)"
  have "yields P r r1"
    unfolding r1_def using assms(1-4)
    by (auto simp: Let_def intro!: yields_emit yields_setState yields_markCompletedInStorage
          split: option.splits)
  then have "yields P r (removeItem (sceneKey env c a) (setState (\<lambda>s. s\<lparr>showEndPopup := True\<rparr>) r1))"
    using assms(5) by (auto simp: yields_iff run_defs)
  then show ?thesis by (simp add: send_complete_def r1_def Let_def)
qed

lemma yields_send_next:
  assumes "P (SetItem (sceneKey env c a) (toString (currentScene p + 1)))"
    and "P (SetTimeout (AdvanceScene (currentScene p + 1)) 1000)"
  shows "yields P r (runOf (send_next env p a c r))"
  using assms
  by (simp add: send_next_def andThen_def setItem_def yields_iff run_defs split: option.splits)


lemma send_try_runOf:
  "runOf (send_try env p tts a c opt r) =
     (case send_happiness env p a c opt (emit (AddMessage User (messageContent opt)) r) of
        Thrown e r1 \<Rightarrow> r1
      | Done r1 \<Rightarrow>
          (if currentScene p \<ge> 5
           then setState (\<lambda>s. s\<lparr>showOptions := False\<rparr>) (setState (\<lambda>s. s\<lparr>input := []\<rparr>)
                  (send_complete env a c (send_response env p tts opt r1)))
           else (case send_next env p a c (send_response env p tts opt r1) of
                   Thrown e r3 \<Rightarrow> r3
                 | Done r3 \<Rightarrow> setState (\<lambda>s. s\<lparr>showOptions := False\<rparr>)
                                (setState (\<lambda>s. s\<lparr>input := []\<rparr>) r3))))"
  by (simp add: send_try_def andThen_def Let_def split: Completion.splits)

lemma runOf_cases: "runOf m = (case m of Done r \<Rightarrow> r | Thrown e r \<Rightarrow> r)"
  by (simp add: runOf_def)

lemma yields_send_try:
  assumes user: "P (AddMessage User (messageContent opt))"
    and upd: "\<And>pts. points opt = Some pts \<Longrightarrow> P (UpdateHappiness c pts)"
    and hap: "\<And>pts. points opt = Some pts \<Longrightarrow>
           P (SetItem (happinessKey env a c) (toString (newHappiness p c pts)))"
    and resp: "\<And>resp. response opt = Some resp \<Longrightarrow> P (AddMessage Assistant resp)"
    and tts: "\<And>resp t. response opt = Some resp \<Longrightarrow> primaryText resp = Some t \<Longrightarrow> t \<noteq> []
           \<Longrightarrow> P (ttsRequest env p t)"
    and cerr: "P ConsoleError" and banner: "P (SetTimeout ClearErrorBanner 5000)"
    and get: "currentScene p \<ge> 5 \<Longrightarrow> P (GetItem (accessKey env a c))"
    and acc: "\<And>v. currentScene p \<ge> 5 \<Longrightarrow> P (SetItem (accessKey env a c) v)"
    and mark: "currentScene p \<ge> 5 \<Longrightarrow> tokenManagerInitialized env \<Longrightarrow> P (MarkChatCompleted c)"
    and rem: "currentScene p \<ge> 5 \<Longrightarrow> P (RemoveItem (sceneKey env c a))"
    and scn: "\<not> currentScene p \<ge> 5 \<Longrightarrow> P (SetItem (sceneKey env c a) (toString (currentScene p + 1)))"
    and adv: "\<not> currentScene p \<ge> 5 \<Longrightarrow> P (SetTimeout (AdvanceScene (currentScene p + 1)) 1000)"
  shows "yields P r (runOf (send_try env p tts a c opt r))"
proof -
  define r0 where "r0 = emit (AddMessage User (messageContent opt)) r"
  define r1 where "r1 = runOf (send_happiness env p a c opt r0)"
  define r2 where "r2 = send_response env p tts opt r1"
  have y0: "yields P r r0" unfolding r0_def using user by (simp add: yields_emit)
  have "yields P r0 r1" unfolding r1_def using upd hap by (rule yields_send_happiness)
  with y0 have y1: "yields P r r1" by (rule yields_trans)
  have "yields P r1 r2" unfolding r2_def using resp tts cerr banner by (rule yields_send_response)
  with y1 have y2: "yields P r r2" by (rule yields_trans)
  show ?thesis
  proof (cases "send_happiness env p a c opt r0")
    case (Thrown e x)
    with y1 show ?thesis by (simp add: send_try_runOf r0_def r1_def)
  next
    case (Done x)
    then have x: "x = r1" by (simp add: r1_def)
    show ?thesis
    proof (cases "currentScene p \<ge> 5")
      case True
      have "yields P r2 (send_complete env a c r2)"
        using get [OF True] acc [OF True] cerr mark [OF True] rem [OF True]
        by (rule yields_send_complete)
      with y2 have "yields P r (send_complete env a c r2)" by (rule yields_trans)
      then show ?thesis using Done True x
        by (simp add: send_try_runOf r0_def [symmetric] r2_def [symmetric] yields_setState)
    next
      case False
      have "yields P r2 (runOf (send_next env p a c r2))"
        using scn [OF False] adv [OF False] by (rule yields_send_next)
      with y2 have "yields P r (runOf (send_next env p a c r2))" by (rule yields_trans)
      moreover have "runOf (send_try env p tts a c opt r) =
          (case send_next env p a c r2 of Thrown e r3 \<Rightarrow> r3
           | Done r3 \<Rightarrow> setState (\<lambda>s. s\<lparr>showOptions := False\<rparr>)
                         (setState (\<lambda>s. s\<lparr>input := []\<rparr>) r3))"
        using Done False x by (simp add: send_try_runOf r0_def [symmetric] r2_def [symmetric])
      ultimately show ?thesis
        by (cases "send_next env p a c r2") (simp_all add: yields_setState)
    qed
  qed
qed

lemma handleSend_cases:
  obtains
    (invalid) "send_args env p (st r) = None"
      "handleSend env p tts r =
         (InvalidState, showErrorMessage (lit ''Invalid input or connection state'') r)"
  | (unknown) a c where "send_args env p (st r) = Some (a, c)"
      "findOption (currentSceneOptions env p) (input (st r)) = None"
      "handleSend env p tts r =
         (InvalidOption, showErrorMessage (lit ''Please select a valid response option'') r)"
  | (sent) a c opt r' where "send_args env p (st r) = Some (a, c)"
      "findOption (currentSceneOptions env p) (input (st r)) = Some opt"
      "send_try env p tts a c opt r = Done r'"
      "handleSend env p tts r = (SendCompleted, r')"
  | (failed) a c opt e r' where "send_args env p (st r) = Some (a, c)"
      "findOption (currentSceneOptions env p) (input (st r)) = Some opt"
      "send_try env p tts a c opt r = Thrown e r'"
      "handleSend env p tts r =
         (SendFailed e,
          setState (\<lambda>s. s\<lparr>input := []\<rparr>)
            (setState (\<lambda>s. s\<lparr>isTransitioning := False\<rparr>)
               (showErrorMessage (js_or_str (message e) (lit ''Failed to send message''))
                  (emit ConsoleError r'))))"
proof (cases "send_args env p (st r)")
  case None
  then show ?thesis using invalid by (simp add: handleSend_def)
next
  case (Some ac)
  obtain a c where ac: "ac = (a, c)" by (cases ac)
  show ?thesis
  proof (cases "findOption (currentSceneOptions env p) (input (st r))")
    case None
    with Some ac show ?thesis using unknown by (simp add: handleSend_def)
  next
    case opt: (Some opt)
    show ?thesis
    proof (cases "send_try env p tts a c opt r")
      case (Done r')
      with Some ac opt show ?thesis using sent by (simp add: handleSend_def)
    next
      case (Thrown e r')
      with Some ac opt show ?thesis using failed by (simp add: handleSend_def)
    qed
  qed
qed

lemma yields_handleSend:
  assumes banner: "P (SetTimeout ClearErrorBanner 5000)" and cerr: "P ConsoleError"
    and body: "\<And>a c opt. send_args env p (st r) = Some (a, c) \<Longrightarrow>
        findOption (currentSceneOptions env p) (input (st r)) = Some opt \<Longrightarrow>
        yields P r (runOf (send_try env p tts a c opt r))"
  shows "yields P r (snd (handleSend env p tts r))"
proof (cases rule: handleSend_cases [of env p r tts])
  case invalid
  then show ?thesis using banner by (simp add: yields_showErrorMessage)
next
  case (unknown a c)
  then show ?thesis using banner by (simp add: yields_showErrorMessage)
next
  case (sent a c opt r')
  with body [of a c opt] show ?thesis by simp
next
  case (failed a c opt e r')
  with body [of a c opt] have "yields P r r'" by simp
  then have "yields P r (emit ConsoleError r')" using cerr by (simp add: yields_emit)
  moreover have "yields P (emit ConsoleError r')
     (showErrorMessage (js_or_str (message e) (lit ''Failed to send message'')) (emit ConsoleError r'))"
    using banner by (rule yields_showErrorMessage)
  ultimately show ?thesis using failed(4) by (simp add: yields_setState yields_trans)
qed

subsection \<open>What a send leaves untouched\<close>

lemma playAudio_frame [simp]:
  "input (st (playAudio env p tts txt r)) = input (st r)"
  "isTransitioning (st (playAudio env p tts txt r)) = isTransitioning (st r)"
  "showEndPopup (st (playAudio env p tts txt r)) = showEndPopup (st r)"
  "showOptions (st (playAudio env p tts txt r)) = showOptions (st r)"
  "currentVideo (st (playAudio env p tts txt r)) = currentVideo (st r)"
  "hasAccess (st (playAudio env p tts txt r)) = hasAccess (st r)"
  "isCheckingAccess (st (playAudio env p tts txt r)) = isCheckingAccess (st r)"
  "ls (playAudio env p tts txt r) = ls r"
  by (simp_all add: playAudio_def Let_def run_defs showErrorMessage_def)

lemma send_happiness_st [simp]: "st (runOf (send_happiness env p a c opt r)) = st r"
  by (simp add: send_happiness_def setItem_def run_defs split: option.splits)

lemma send_response_frame [simp]:
  "input (st (send_response env p tts opt r)) = input (st r)"
  "isTransitioning (st (send_response env p tts opt r)) = isTransitioning (st r)"
  "showEndPopup (st (send_response env p tts opt r)) = showEndPopup (st r)"
  "showOptions (st (send_response env p tts opt r)) = showOptions (st r)"
  "hasAccess (st (send_response env p tts opt r)) = hasAccess (st r)"
  "isCheckingAccess (st (send_response env p tts opt r)) = isCheckingAccess (st r)"
  "ls (send_response env p tts opt r) = ls r"
  by (simp_all add: send_response_def Let_def run_defs split: option.splits)

lemma markCompletedInStorage_st [simp]: "st (markCompletedInStorage env k r) = st r"
  by (simp add: markCompletedInStorage_def run_defs setItem_def split: option.splits)

lemma send_complete_st:
  "st (send_complete env a c r) =
     (st r)\<lparr>hasAccess := (if tokenManagerInitialized env \<and> c \<noteq> [] \<and> markChatCompleted_throws env = None
                          then False else hasAccess (st r)),
             showEndPopup := True\<rparr>"
  by (simp add: send_complete_def Let_def run_defs split: option.splits)

lemma send_next_st [simp]:
  "st (runOf (send_next env p a c r)) = (st r)\<lparr>isTransitioning := True\<rparr>"
  by (simp add: send_next_def andThen_def setItem_def run_defs split: option.splits)



section \<open>The access gate\<close>

lemma endChatStorage_st [simp]: "st (endChatStorage env k r) = st r"
  by (simp add: endChatStorage_def run_defs setItem_def split: option.splits)









section \<open>Rejected sends\<close>

lemma send_args_None:
  "send_args env p s = None \<longleftrightarrow>
     (trim (input s) = [] \<or> \<not> truthy (selectedCharacter p) \<or> character env p = None
      \<or> isTransitioning s \<or> \<not> truthy (address p))"
  by (auto simp: send_args_def truthy_def split: option.splits)

lemma send_args_Some:
  "send_args env p s = Some (a, c) \<Longrightarrow>
     address p = Some a \<and> selectedCharacter p = Some c \<and> a \<noteq> [] \<and> c \<noteq> []
     \<and> trim (input s) \<noteq> [] \<and> \<not> isTransitioning s \<and> character env p \<noteq> None"
  by (auto simp: send_args_def split: option.splits if_splits)

lemma findOption_None:
  "findOption opts inp = None \<longleftrightarrow> \<not> (\<exists>opt\<in>set opts. primaryText opt = Some (trim inp))"
  by (auto simp: findOption_def find_None_iff)

lemma findOption_Some:
  "findOption opts inp = Some opt \<Longrightarrow> opt \<in> set opts \<and> primaryText opt = Some (trim inp)"
  by (auto simp: findOption_def find_Some_iff)

text \<open>
  Claim C10. When the trimmed input is empty, no character is selected, no wallet address
  is present, or the trimmed input is not the primary text of any option of the current
  scene, \<open>handleSend\<close> shows an error message and changes nothing else: the state is the old
  one with the error set and shown, the storage is untouched, and the only effect is the
  banner's timer, so no message is added, the happiness is not updated and no scene is
  entered.
\<close>

theorem handleSend_rejects_atomically:
  assumes "trim (input (st r)) = [] \<or> \<not> truthy (selectedCharacter p) \<or> \<not> truthy (address p)
     \<or> \<not> (\<exists>opt\<in>set (currentSceneOptions env p). primaryText opt = Some (trim (input (st r))))"
  shows "\<exists>msg. msg \<noteq> []
     \<and> (fst (handleSend env p tts r) = InvalidState \<or> fst (handleSend env p tts r) = InvalidOption)
     \<and> snd (handleSend env p tts r) = showErrorMessage msg r
     \<and> st (snd (handleSend env p tts r)) = (st r)\<lparr>error := Some msg, showError := True\<rparr>
     \<and> banner (chatView env p (st (snd (handleSend env p tts r)))) = Some msg
     \<and> ls (snd (handleSend env p tts r)) = ls r
     \<and> newEffects r (snd (handleSend env p tts r)) = [SetTimeout ClearErrorBanner 5000]
     \<and> (\<forall>e\<in>set (newEffects r (snd (handleSend env p tts r))). \<not> changesChat e)"
proof -
  have rejected: ?thesis
    if "msg \<noteq> []" and "status = InvalidState \<or> status = InvalidOption"
      and "handleSend env p tts r = (status, showErrorMessage msg r)" for msg status
    using that
    by (intro exI [of _ msg])
       (simp add: showErrorMessage_def run_defs chatView_def truthy_def newEffects_def)
  show ?thesis
  proof (cases "send_args env p (st r)")
    case None
    define msg where "msg = lit ''Invalid input or connection state''"
    have "msg \<noteq> []" by (simp add: msg_def)
    moreover from None have "handleSend env p tts r = (InvalidState, showErrorMessage msg r)"
      by (simp add: handleSend_def msg_def)
    ultimately show ?thesis using rejected by blast
  next
    case (Some ac)
    obtain a c where ac: "ac = (a, c)" by (cases ac)
    from Some ac have "trim (input (st r)) \<noteq> []" "truthy (selectedCharacter p)" "truthy (address p)"
      using send_args_Some [of env p "st r" a c] by (simp_all add: truthy_def)
    with assms have none: "findOption (currentSceneOptions env p) (input (st r)) = None"
      by (simp add: findOption_None)
    define msg where "msg = lit ''Please select a valid response option''"
    have "msg \<noteq> []" by (simp add: msg_def)
    moreover from Some ac none have "handleSend env p tts r = (InvalidOption, showErrorMessage msg r)"
      by (simp add: handleSend_def msg_def)
    ultimately show ?thesis using rejected by blast
  qed
qed

theorem handleSend_rejects_atomically_witness:
  "(\<exists>msg. msg \<noteq> []
      \<and> snd (handleSend demoEnv demoProps TtsPlaying (typingRun (lit ''hello'')))
          = showErrorMessage msg (typingRun (lit ''hello''))
      \<and> newEffects (typingRun (lit ''hello''))
           (snd (handleSend demoEnv demoProps TtsPlaying (typingRun (lit ''hello''))))
          = [SetTimeout ClearErrorBanner 5000])
   \<and> fst (handleSend demoEnv demoProps TtsPlaying (typingRun (lit ''hello''))) = InvalidOption"
proof -
  have inp: "trim (input (st (typingRun (lit ''hello'')))) = lit ''hello''"
    by (simp add: typingRun_def setState_def trim_def isWhiteSpace_def)
  have h: "trim (input (st (typingRun (lit ''hello'')))) = []
     \<or> \<not> truthy (selectedCharacter demoProps) \<or> \<not> truthy (address demoProps)
     \<or> \<not> (\<exists>opt\<in>set (currentSceneOptions demoEnv demoProps).
            primaryText opt = Some (trim (input (st (typingRun (lit ''hello''))))))"
    unfolding demo_currentSceneOptions inp
    by (simp add: primaryText_def js_or_def truthy_def helloOption_def plainOption_def)
  have status: "fst (handleSend demoEnv demoProps TtsPlaying (typingRun (lit ''hello''))) = InvalidOption"
    by (simp add: send_defs demo_defs run_defs)
  from handleSend_rejects_atomically [OF h, of TtsPlaying] status show ?thesis by blast
qed

section \<open>Text-to-speech requests\<close>

lemma fetches_playAudio:
  "e \<in> set (newEffects r (playAudio env p tts t r)) \<Longrightarrow> isFetch e \<Longrightarrow> t \<noteq> [] \<and> e = ttsRequest env p t"
proof -
  assume new: "e \<in> set (newEffects r (playAudio env p tts t r))" and fetch: "isFetch e"
  have "yields (\<lambda>e. isFetch e \<longrightarrow> t \<noteq> [] \<and> e = ttsRequest env p t) r (playAudio env p tts t r)"
    by (rule yields_playAudio) simp_all
  from yields_new [OF this new] fetch show ?thesis by simp
qed

lemma fetches_handleSend:
  assumes new: "e \<in> set (newEffects r (snd (handleSend env p tts r)))" and fetch: "isFetch e"
  shows "\<exists>opt resp t. findOption (currentSceneOptions env p) (input (st r)) = Some opt
     \<and> response opt = Some resp \<and> primaryText resp = Some t \<and> t \<noteq> [] \<and> e = ttsRequest env p t"
proof -
  let ?P = "\<lambda>e. isFetch e \<longrightarrow>
     (\<exists>opt resp t. findOption (currentSceneOptions env p) (input (st r)) = Some opt
     \<and> response opt = Some resp \<and> primaryText resp = Some t \<and> t \<noteq> [] \<and> e = ttsRequest env p t)"
  have "yields ?P r (snd (handleSend env p tts r))"
  proof (rule yields_handleSend)
    fix a c opt
    assume "send_args env p (st r) = Some (a, c)"
      and found: "findOption (currentSceneOptions env p) (input (st r)) = Some opt"
    show "yields ?P r (runOf (send_try env p tts a c opt r))"
      by (rule yields_send_try) (use found in auto)
  qed simp_all
  from yields_new [OF this new] fetch show ?thesis by simp
qed

lemma no_fetch_endChatStorage: "yields (\<lambda>e. \<not> isFetch e) r (endChatStorage env k r)"
  by (simp add: endChatStorage_def setItem_def yields_iff run_defs split: option.splits)

lemma no_fetch_handleChatCompleted:
  "yields (\<lambda>e. \<not> isFetch e) r (handleChatCompleted env p detail r)"
  by (simp add: handleChatCompleted_def Let_def yields_iff run_defs split: option.splits)

lemma no_fetch_handleEndChat: "yields (\<lambda>e. \<not> isFetch e) r (handleEndChat env p r)"
proof -
  define r0 where "r0 = setState (\<lambda>s. s\<lparr>showEndPopup := False\<rparr>) r"
  have y0: "yields (\<lambda>e. \<not> isFetch e) r r0" by (simp add: r0_def yields_setState)
  have other: "yields (\<lambda>e. \<not> isFetch e) r (emit (RouterPush (lit ''/'')) r0)"
    using y0 by (simp add: yields_emit)
  have main: "yields (\<lambda>e. \<not> isFetch e) r
      (emit (RouterPush (lit ''/chat/'' @ template (characterLanguage env p)))
         (handleChatCompleted env p (Some c)
            (emit (DispatchChatCompleted c)
               (endChatStorage env (accessKey env a c)
                  (setState (\<lambda>s. s\<lparr>hasAccess := False\<rparr>) r0)))))" for a c
  proof -
    let ?r1 = "setState (\<lambda>s. s\<lparr>hasAccess := False\<rparr>) r0"
    let ?r2 = "endChatStorage env (accessKey env a c) ?r1"
    let ?r2' = "emit (DispatchChatCompleted c) ?r2"
    have "yields (\<lambda>e. \<not> isFetch e) r ?r1" using y0 by (simp add: yields_setState)
    then have "yields (\<lambda>e. \<not> isFetch e) r ?r2"
      using no_fetch_endChatStorage by (rule yields_trans)
    then have "yields (\<lambda>e. \<not> isFetch e) r ?r2'" by (simp add: yields_emit)
    then have "yields (\<lambda>e. \<not> isFetch e) r (handleChatCompleted env p (Some c) ?r2')"
      using no_fetch_handleChatCompleted by (rule yields_trans)
    then show ?thesis by (simp add: yields_emit)
  qed
  show ?thesis
    using other main
    by (simp add: handleEndChat_def Let_def r0_def [symmetric] split: option.splits)
qed

lemma no_fetch_step:
  assumes "\<And>env p tts t. ev \<noteq> PlayAudioClicked env p tts t"
    and "\<And>env p tts. ev \<noteq> SendClicked env p tts"
  shows "yields (\<lambda>e. \<not> isFetch e) r (step ev r)"
proof (cases ev)
  case (CheckAccessBegins env p)
  then show ?thesis
    by (simp add: checkAccess_begin_def checkAccess_skip_def checkAccess_call_def
          yields_iff run_defs split: option.splits)
next
  case (CheckAccessSettles env a c outcome)
  then show ?thesis
    by (cases outcome)
       (simp_all add: checkAccess_settle_def Let_def yields_iff run_defs split: Reason.splits)
next
  case (AccessStatusChanged p detail)
  then show ?thesis
    by (simp add: handleAccessChange_def yields_iff run_defs split: option.splits)
next
  case (ChatCompleted env p detail)
  then show ?thesis by (simp add: no_fetch_handleChatCompleted)
next
  case AccessGranted
  then show ?thesis by (simp add: handleAccessGranted_def yields_iff run_defs)
next
  case (PlayAudioClicked env p tts words)
  with assms(1) show ?thesis by blast
next
  case AudioEnded
  then show ?thesis by (simp add: audioEnded_def yields_iff run_defs)
next
  case (OptionSelected words)
  then show ?thesis by (simp add: handleOptionSelect_def yields_iff run_defs)
next
  case OptionsToggled
  then show ?thesis by (simp add: yields_iff run_defs)
next
  case (SendClicked env p tts)
  with assms(2) show ?thesis by blast
next
  case (EndChat env p)
  then show ?thesis by (simp add: no_fetch_handleEndChat)
next
  case (ReturnToSelection env p)
  then show ?thesis by (simp add: handleReturnToSelection_def yields_iff run_defs)
next
  case (Back env p)
  then show ?thesis by (simp add: onBack_def yields_iff run_defs)
next
  case (BackToTutors env p)
  then show ?thesis by (simp add: backToTutors_def yields_iff run_defs)
next
  case (TimerFired cb)
  then show ?thesis by (cases cb) (simp_all add: yields_iff run_defs)
qed

text \<open>
  Claim C8. Every \<open>fetch\<close> the chat interface issues is a text-to-speech request: a
  \<open>POST\<close> to \<open>/api/tts\<close> with a JSON body of exactly the two fields \<open>text\<close> and
  \<open>language\<close>, where \<open>text\<close> is the non-empty text to speak (the text handed to the play
  handler, or the primary text of the chosen option's response) and \<open>language\<close> is the
  language of the selected character, or \<open>chinese\<close> when there is none. No other event of
  the component issues a request.
\<close>

theorem tts_requests_well_formed:
  "(\<forall>e\<in>set (newEffects r (step (PlayAudioClicked env p tts t) r)).
      isFetch e \<longrightarrow> t \<noteq> [] \<and> e = ttsRequest env p t)
   \<and> (\<forall>e\<in>set (newEffects r (step (SendClicked env p tts) r)).
      isFetch e \<longrightarrow>
        (\<exists>opt resp t'. findOption (currentSceneOptions env p) (input (st r)) = Some opt
           \<and> response opt = Some resp \<and> primaryText resp = Some t' \<and> t' \<noteq> []
           \<and> e = ttsRequest env p t'))
   \<and> ((\<forall>env p tts t. ev \<noteq> PlayAudioClicked env p tts t) \<and> (\<forall>env p tts. ev \<noteq> SendClicked env p tts)
        \<longrightarrow> (\<forall>e\<in>set (newEffects r (step ev r)). \<not> isFetch e))
   \<and> ttsRequest env p t =
        Fetch POST (lit ''/api/tts'') [(lit ''Content-Type'', lit ''application/json'')]
          (JSON_stringify env
             (JObj [(lit ''text'', JStr t),
                    (lit ''language'',
                     JStr (case characterLanguage env p of
                             None \<Rightarrow> lit ''chinese''
                           | Some l \<Rightarrow> if l = [] then lit ''chinese'' else l))]))
   \<and> characterLanguage env p = (case character env p of None \<Rightarrow> None | Some ch \<Rightarrow> language ch)"
proof -
  have a: "\<forall>e\<in>set (newEffects r (step (PlayAudioClicked env p tts t) r)).
      isFetch e \<longrightarrow> t \<noteq> [] \<and> e = ttsRequest env p t"
    using fetches_playAudio [of _ r env p tts t]
    by (auto simp: handlePlayAudio_def newEffects_def)
  have b: "\<forall>e\<in>set (newEffects r (step (SendClicked env p tts) r)).
      isFetch e \<longrightarrow>
        (\<exists>opt resp t'. findOption (currentSceneOptions env p) (input (st r)) = Some opt
           \<and> response opt = Some resp \<and> primaryText resp = Some t' \<and> t' \<noteq> []
           \<and> e = ttsRequest env p t')"
    using fetches_handleSend [of _ r env p tts] by simp
  have c: "(\<forall>env p tts t. ev \<noteq> PlayAudioClicked env p tts t) \<and> (\<forall>env p tts. ev \<noteq> SendClicked env p tts)
        \<longrightarrow> (\<forall>e\<in>set (newEffects r (step ev r)). \<not> isFetch e)"
    using yields_new [OF no_fetch_step [of ev r]] by blast
  have d: "ttsRequest env p t =
        Fetch POST (lit ''/api/tts'') [(lit ''Content-Type'', lit ''application/json'')]
          (JSON_stringify env
             (JObj [(lit ''text'', JStr t),
                    (lit ''language'',
                     JStr (case characterLanguage env p of
                             None \<Rightarrow> lit ''chinese''
                           | Some l \<Rightarrow> if l = [] then lit ''chinese'' else l))]))"
    by (simp add: ttsRequest_def js_or_str_def split: option.splits)
  have e: "characterLanguage env p = (case character env p of None \<Rightarrow> None | Some ch \<Rightarrow> language ch)"
    by (simp add: characterLanguage_def)
  from a b c d e show ?thesis by blast
qed

theorem tts_requests_well_formed_witness:
  "newEffects chattingRun
     (step (PlayAudioClicked demoEnv demoProps TtsPlaying [20320, 22909]) chattingRun)
     = [ttsRequest demoEnv demoProps [20320, 22909]]
   \<and> isFetch (ttsRequest demoEnv demoProps [20320, 22909])
   \<and> ttsRequest demoEnv demoProps [20320, 22909]
     = Fetch POST (lit ''/api/tts'') [(lit ''Content-Type'', lit ''application/json'')]
         (lit ''{\"text\":\"'' @ [20320, 22909] @ lit ''\",\"language\":\"chinese\"}'')"
proof -
  have new: "newEffects chattingRun
     (step (PlayAudioClicked demoEnv demoProps TtsPlaying [20320, 22909]) chattingRun)
     = [ttsRequest demoEnv demoProps [20320, 22909]]"
    by (simp add: handlePlayAudio_def playAudio_def Let_def newEffects_def run_defs demo_defs)
  have lang: "characterLanguage demoEnv demoProps = Some (lit ''chinese'')"
    by (simp add: characterLanguage_def character_def demo_defs)
  from tts_requests_well_formed [of chattingRun demoEnv demoProps TtsPlaying "[20320, 22909]"]
  have "ttsRequest demoEnv demoProps [20320, 22909] =
        Fetch POST (lit ''/api/tts'') [(lit ''Content-Type'', lit ''application/json'')]
          (JSON_stringify demoEnv
             (JObj [(lit ''text'', JStr [20320, 22909]),
                    (lit ''language'',
                     JStr (case characterLanguage demoEnv demoProps of
                             None \<Rightarrow> lit ''chinese''
                           | Some l \<Rightarrow> if l = [] then lit ''chinese'' else l))]))"
    by blast
  then have req: "ttsRequest demoEnv demoProps [20320, 22909]
     = Fetch POST (lit ''/api/tts'') [(lit ''Content-Type'', lit ''application/json'')]
         (lit ''{\"text\":\"'' @ [20320, 22909] @ lit ''\",\"language\":\"chinese\"}'')"
    unfolding lang by (simp add: demoEnv_def)
  from new req show ?thesis by simp
qed

section \<open>Scene progress\<close>

lemma yields_log: "yields P r r' \<Longrightarrow> log r' = log r @ newEffects r r'"
  by (auto simp: yields_iff newEffects_def)

lemma yields_weaken: "yields P r r' \<Longrightarrow> (\<And>e. P e \<Longrightarrow> Q e) \<Longrightarrow> yields Q r r'"
  by (auto simp: yields_iff)

lemma newEffects_self [simp]: "newEffects r r = []"
  by (simp add: newEffects_def)

lemma newEffects_setState [simp]: "newEffects r (setState f r') = newEffects r r'"
  by (simp add: newEffects_def setState_def)

lemma newEffects_emit: "yields P r r1 \<Longrightarrow> newEffects r (emit e r1) = newEffects r r1 @ [e]"
  by (auto simp: yields_iff newEffects_def emit_def)

lemma ttsRequest_kind [simp]:
  "isFetch (ttsRequest env p t)" "\<not> entersScene (ttsRequest env p t)"
  "\<not> changesChat (ttsRequest env p t)" "ttsRequest env p t \<noteq> MarkChatCompleted c"
  "ttsRequest env p t \<noteq> UpdateHappiness c n"
  by (simp_all add: ttsRequest_def)








section \<open>Happiness\<close>

lemma setState_proj:
  "st (setState f r) = f (st r)" "ls (setState f r) = ls r" "log (setState f r) = log r"
  by (simp_all add: setState_def)

lemma happinessKey_distinct:
  "happinessKey env a c \<noteq> accessKey env a' c'" "happinessKey env a c \<noteq> sceneKey env c' a'"
  by (simp_all add: happinessKey_def accessKey_def sceneKey_def)

lemma markCompletedInStorage_ls: "k' \<noteq> k \<Longrightarrow> ls (markCompletedInStorage env k r) k' = ls r k'"
  by (simp add: markCompletedInStorage_def setItem_def run_defs split: option.splits)

lemma send_complete_ls_other:
  "k' \<noteq> accessKey env a c \<Longrightarrow> k' \<noteq> sceneKey env c a \<Longrightarrow> ls (send_complete env a c r) k' = ls r k'"
  by (simp add: send_complete_def Let_def run_defs markCompletedInStorage_ls split: option.splits)

lemma send_next_ls_other:
  "k' \<noteq> sceneKey env c a \<Longrightarrow> ls (runOf (send_next env p a c r)) k' = ls r k'"
  by (simp add: send_next_def andThen_def setItem_def run_defs split: option.splits)

lemma send_happiness_points:
  assumes "points opt = Some pts"
  shows "newEffects r (runOf (send_happiness env p a c opt r))
       = [UpdateHappiness c pts, SetItem (happinessKey env a c) (toString (newHappiness p c pts))]"
    and "setItem_throws env (happinessKey env a c) (toString (newHappiness p c pts)) = None
       \<Longrightarrow> ls (runOf (send_happiness env p a c opt r)) (happinessKey env a c)
           = Some (toString (newHappiness p c pts))"
  using assms
  by (simp_all add: send_happiness_def setItem_def newEffects_def run_defs split: option.splits)

lemma send_happiness_Thrown:
  "send_happiness env p a c opt r = Thrown e r' \<Longrightarrow>
     \<exists>pts. points opt = Some pts
       \<and> setItem_throws env (happinessKey env a c) (toString (newHappiness p c pts)) = Some e"
  by (auto simp: send_happiness_def setItem_def split: option.splits)

text \<open>The rest of a send, from the run the happiness block leaves.\<close>

lemma send_try_after_happiness:
  fixes env p tts a c opt r
  defines "r1 \<equiv> runOf (send_happiness env p a c opt (emit (AddMessage User (messageContent opt)) r))"
  shows "yields (\<lambda>e. True) r1 (runOf (send_try env p tts a c opt r))"
    and "k \<noteq> accessKey env a c \<Longrightarrow> k \<noteq> sceneKey env c a
           \<Longrightarrow> ls (runOf (send_try env p tts a c opt r)) k = ls r1 k"
proof -
  define r0 where "r0 = emit (AddMessage User (messageContent opt)) r"
  define r2 where "r2 = send_response env p tts opt r1"
  have y2: "yields (\<lambda>e. True) r1 r2" unfolding r2_def by (rule yields_send_response) simp_all
  have ls2: "ls r2 = ls r1" by (simp add: r2_def)
  have both: "yields (\<lambda>e. True) r1 (runOf (send_try env p tts a c opt r))
     \<and> (k \<noteq> accessKey env a c \<longrightarrow> k \<noteq> sceneKey env c a
           \<longrightarrow> ls (runOf (send_try env p tts a c opt r)) k = ls r1 k)"
  proof (cases "send_happiness env p a c opt r0")
    case (Thrown e x)
    then have "runOf (send_try env p tts a c opt r) = r1"
      by (simp add: send_try_runOf r0_def r1_def)
    then show ?thesis by simp
  next
    case (Done x)
    then have x: "x = r1" by (simp add: r1_def r0_def)
    show ?thesis
    proof (cases "currentScene p \<ge> 5")
      case True
      with Done x have eq: "runOf (send_try env p tts a c opt r) =
          setState (\<lambda>s. s\<lparr>showOptions := False\<rparr>) (setState (\<lambda>s. s\<lparr>input := []\<rparr>)
                  (send_complete env a c r2))"
        by (simp add: send_try_runOf r0_def [symmetric] r2_def)
      have "yields (\<lambda>e. True) r2 (send_complete env a c r2)"
        by (rule yields_send_complete) simp_all
      with y2 have "yields (\<lambda>e. True) r1 (send_complete env a c r2)" by (rule yields_trans)
      then show ?thesis
        by (simp add: eq yields_setState send_complete_ls_other ls2 setState_proj)
    next
      case False
      with Done x have eq: "runOf (send_try env p tts a c opt r) =
          (case send_next env p a c r2 of Thrown e r3 \<Rightarrow> r3
           | Done r3 \<Rightarrow> setState (\<lambda>s. s\<lparr>showOptions := False\<rparr>)
                         (setState (\<lambda>s. s\<lparr>input := []\<rparr>) r3))"
        by (simp add: send_try_runOf r0_def [symmetric] r2_def)
      have "yields (\<lambda>e. True) r2 (runOf (send_next env p a c r2))"
        by (rule yields_send_next) simp_all
      with y2 have y3: "yields (\<lambda>e. True) r1 (runOf (send_next env p a c r2))"
        by (rule yields_trans)
      have ls3: "k \<noteq> sceneKey env c a \<longrightarrow> ls (runOf (send_next env p a c r2)) k = ls r1 k"
        by (simp add: send_next_ls_other ls2)
      show ?thesis
        using y3 ls3
        by (cases "send_next env p a c r2") (simp_all add: eq yields_setState setState_proj)
    qed
  qed
  from both show "yields (\<lambda>e. True) r1 (runOf (send_try env p tts a c opt r))" by blast
  from both show "k \<noteq> accessKey env a c \<Longrightarrow> k \<noteq> sceneKey env c a
           \<Longrightarrow> ls (runOf (send_try env p tts a c opt r)) k = ls r1 k" by blast
qed

lemma handleSend_found:
  assumes "send_args env p (st r) = Some (a, c)"
    and "findOption (currentSceneOptions env p) (input (st r)) = Some opt"
  shows "yields (\<lambda>e. True) (runOf (send_try env p tts a c opt r)) (snd (handleSend env p tts r))"
    and "ls (snd (handleSend env p tts r)) = ls (runOf (send_try env p tts a c opt r))"
  using assms
  by (cases "send_try env p tts a c opt r";
      simp add: handleSend_def yields_iff showErrorMessage_def run_defs)+

text \<open>The send of an option with numeric points.\<close>

lemma send_happiness_with_points:
  assumes args: "send_args env p (st r) = Some (a, c)"
    and found: "findOption (currentSceneOptions env p) (input (st r)) = Some opt"
    and pts: "points opt = Some pts"
  shows "UpdateHappiness c pts \<in> set (newEffects r (snd (handleSend env p tts r)))
    \<and> SetItem (happinessKey env a c) (toString (min 100 (max 0 (currentHappiness p c + pts))))
        \<in> set (newEffects r (snd (handleSend env p tts r)))
    \<and> (\<forall>e\<in>set (newEffects r (snd (handleSend env p tts r))).
          \<forall>c' n. e = UpdateHappiness c' n \<longrightarrow> c' = c \<and> n = pts)
    \<and> (setItem_throws env (happinessKey env a c)
           (toString (min 100 (max 0 (currentHappiness p c + pts)))) = None
        \<longrightarrow> ls (snd (handleSend env p tts r)) (happinessKey env a c)
            = Some (toString (min 100 (max 0 (currentHappiness p c + pts)))))
    \<and> (happiness p c = None \<longrightarrow> currentHappiness p c = 50)
    \<and> (\<forall>h. happiness p c = Some h \<and> h \<noteq> 0 \<longrightarrow> currentHappiness p c = h)
    \<and> selectedCharacter p = Some c \<and> address p = Some a"
proof -
  let ?v = "toString (min 100 (max 0 (currentHappiness p c + pts)))"
  let ?r' = "snd (handleSend env p tts r)"
  define r0 where "r0 = emit (AddMessage User (messageContent opt)) r"
  define r1 where "r1 = runOf (send_happiness env p a c opt r0)"
  define rt where "rt = runOf (send_try env p tts a c opt r)"
  have v: "toString (newHappiness p c pts) = ?v" by (simp add: newHappiness_def)
  have y0: "yields (\<lambda>e. True) r r0" by (simp add: r0_def yields_emit)
  have y01: "yields (\<lambda>e. True) r0 r1" unfolding r1_def by (rule yields_send_happiness) simp_all
  have y1t: "yields (\<lambda>e. True) r1 rt"
    unfolding r1_def r0_def rt_def by (rule send_try_after_happiness(1))
  have yt: "yields (\<lambda>e. True) rt ?r'"
    unfolding rt_def using args found by (rule handleSend_found(1))
  have y1': "yields (\<lambda>e. True) r1 ?r'" using y1t yt by (rule yields_trans)
  have y0': "yields (\<lambda>e. True) r0 ?r'" using y01 y1' by (rule yields_trans)
  have "newEffects r0 ?r' = newEffects r0 r1 @ newEffects r1 ?r'"
    using y01 y1' by (rule yields_split)
  moreover have "newEffects r ?r' = newEffects r r0 @ newEffects r0 ?r'"
    using y0 y0' by (rule yields_split)
  moreover have "newEffects r0 r1 = [UpdateHappiness c pts, SetItem (happinessKey env a c) ?v]"
    unfolding r1_def using send_happiness_points(1) [OF pts, of r0 env p a c] by (simp add: v)
  ultimately have mem: "UpdateHappiness c pts \<in> set (newEffects r ?r')"
    "SetItem (happinessKey env a c) ?v \<in> set (newEffects r ?r')"
    by simp_all
  have "yields (\<lambda>e. \<forall>c' n. e = UpdateHappiness c' n \<longrightarrow> c' = c \<and> n = pts) r ?r'"
  proof (rule yields_handleSend)
    fix a' c' opt'
    assume "send_args env p (st r) = Some (a', c')"
      and "findOption (currentSceneOptions env p) (input (st r)) = Some opt'"
    with args found have same: "a' = a" "c' = c" "opt' = opt" by simp_all
    show "yields (\<lambda>e. \<forall>c' n. e = UpdateHappiness c' n \<longrightarrow> c' = c \<and> n = pts) r
        (runOf (send_try env p tts a' c' opt' r))"
      unfolding same by (rule yields_send_try) (use pts in \<open>simp_all add: ttsRequest_def\<close>)
  qed simp_all
  then have only: "\<forall>e\<in>set (newEffects r ?r'). \<forall>c' n. e = UpdateHappiness c' n \<longrightarrow> c' = c \<and> n = pts"
    using yields_new by blast
  have stored: "setItem_throws env (happinessKey env a c) ?v = None
        \<longrightarrow> ls ?r' (happinessKey env a c) = Some ?v"
  proof
    assume "setItem_throws env (happinessKey env a c) ?v = None"
    then have "ls r1 (happinessKey env a c) = Some ?v"
      unfolding r1_def using send_happiness_points(2) [OF pts, of env a c p r0] by (simp add: v)
    moreover have "ls rt (happinessKey env a c) = ls r1 (happinessKey env a c)"
      unfolding rt_def r1_def r0_def
      by (rule send_try_after_happiness(2)) (simp_all add: happinessKey_distinct)
    moreover have "ls ?r' = ls rt"
      unfolding rt_def using args found by (rule handleSend_found(2))
    ultimately show "ls ?r' (happinessKey env a c) = Some ?v" by simp
  qed
  have prev: "happiness p c = None \<longrightarrow> currentHappiness p c = 50"
    "\<forall>h. happiness p c = Some h \<and> h \<noteq> 0 \<longrightarrow> currentHappiness p c = h"
    by (simp_all add: currentHappiness_def)
  from args have ac: "selectedCharacter p = Some c" "address p = Some a"
    by (auto simp: send_args_def split: option.splits if_splits)
  from mem only stored prev ac show ?thesis by blast
qed

text \<open>The send of an option without numeric points: the happiness is left alone.\<close>

lemma send_happiness_without_points:
  assumes args: "send_args env p (st r) = Some (a, c)"
    and found: "findOption (currentSceneOptions env p) (input (st r)) = Some opt"
    and none: "points opt = None"
  shows "(\<forall>e\<in>set (newEffects r (snd (handleSend env p tts r))).
            (\<forall>c' n. e \<noteq> UpdateHappiness c' n) \<and> (\<forall>v. e \<noteq> SetItem (happinessKey env a c) v))
    \<and> ls (snd (handleSend env p tts r)) (happinessKey env a c) = ls r (happinessKey env a c)"
proof -
  let ?r' = "snd (handleSend env p tts r)"
  let ?P = "\<lambda>e. (\<forall>c' n. e \<noteq> UpdateHappiness c' n) \<and> (\<forall>v. e \<noteq> SetItem (happinessKey env a c) v)"
  define r0 where "r0 = emit (AddMessage User (messageContent opt)) r"
  define rt where "rt = runOf (send_try env p tts a c opt r)"
  have "yields ?P r ?r'"
  proof (rule yields_handleSend)
    fix a' c' opt'
    assume "send_args env p (st r) = Some (a', c')"
      and "findOption (currentSceneOptions env p) (input (st r)) = Some opt'"
    with args found have same: "a' = a" "c' = c" "opt' = opt" by simp_all
    show "yields ?P r (runOf (send_try env p tts a' c' opt' r))"
      unfolding same
      by (rule yields_send_try)
         (use none happinessKey_distinct [of env a c] happinessKey_distinct [of env a c, symmetric]
           in \<open>simp_all add: ttsRequest_def\<close>)
  qed simp_all
  then have quiet: "\<forall>e\<in>set (newEffects r ?r'). ?P e"
    using yields_new by blast
  have "runOf (send_happiness env p a c opt r0) = r0"
    using none by (simp add: send_happiness_def)
  then have "ls rt (happinessKey env a c) = ls r0 (happinessKey env a c)"
    unfolding rt_def r0_def
    using send_try_after_happiness(2) [where k = "happinessKey env a c" and env = env and a = a
        and c = c and p = p and opt = opt and r = r and tts = tts]
    by (simp add: happinessKey_distinct)
  moreover have "ls ?r' = ls rt"
    unfolding rt_def using args found by (rule handleSend_found(2))
  moreover have "ls r0 = ls r" by (simp add: r0_def emit_def)
  ultimately have "ls ?r' (happinessKey env a c) = ls r (happinessKey env a c)" by simp
  with quiet show ?thesis by blast
qed

text \<open>
  Claim C3, as the code has it. When the guard of \<open>handleSend\<close> passes and the input is
  the primary text of an option: if the option's \<open>points\<close> is a number, the send calls
  \<open>actions.updateHappiness(selectedCharacter, points)\<close>, and no other happiness update,
  and calls \<open>localStorage.setItem\<close> on the happiness key with the decimal string of
  \<open>min(100, max(0, previous + points))\<close>; unless that write throws, the key holds this
  value when the handler is through. If the option has no numeric \<open>points\<close>, the send makes
  no happiness update and no write to the happiness key, which holds what it held before.
  \<open>previous\<close> is 50 when the store has no happiness for the character, and the stored
  number when that is not zero.
\<close>

theorem send_updates_happiness:
  assumes args: "send_args env p (st r) = Some (a, c)"
    and found: "findOption (currentSceneOptions env p) (input (st r)) = Some opt"
  shows "(\<forall>pts. points opt = Some pts \<longrightarrow>
        UpdateHappiness c pts \<in> set (newEffects r (snd (handleSend env p tts r)))
      \<and> SetItem (happinessKey env a c) (toString (min 100 (max 0 (currentHappiness p c + pts))))
          \<in> set (newEffects r (snd (handleSend env p tts r)))
      \<and> (\<forall>e\<in>set (newEffects r (snd (handleSend env p tts r))).
            \<forall>c' n. e = UpdateHappiness c' n \<longrightarrow> c' = c \<and> n = pts)
      \<and> (setItem_throws env (happinessKey env a c)
             (toString (min 100 (max 0 (currentHappiness p c + pts)))) = None
          \<longrightarrow> ls (snd (handleSend env p tts r)) (happinessKey env a c)
              = Some (toString (min 100 (max 0 (currentHappiness p c + pts))))))
    \<and> (points opt = None \<longrightarrow>
        (\<forall>e\<in>set (newEffects r (snd (handleSend env p tts r))).
            (\<forall>c' n. e \<noteq> UpdateHappiness c' n) \<and> (\<forall>v. e \<noteq> SetItem (happinessKey env a c) v))
      \<and> ls (snd (handleSend env p tts r)) (happinessKey env a c) = ls r (happinessKey env a c))
    \<and> (happiness p c = None \<longrightarrow> currentHappiness p c = 50)
    \<and> (\<forall>h. happiness p c = Some h \<and> h \<noteq> 0 \<longrightarrow> currentHappiness p c = h)
    \<and> selectedCharacter p = Some c \<and> address p = Some a"
proof -
  have with_points: "\<forall>pts. points opt = Some pts \<longrightarrow>
        UpdateHappiness c pts \<in> set (newEffects r (snd (handleSend env p tts r)))
      \<and> SetItem (happinessKey env a c) (toString (min 100 (max 0 (currentHappiness p c + pts))))
          \<in> set (newEffects r (snd (handleSend env p tts r)))
      \<and> (\<forall>e\<in>set (newEffects r (snd (handleSend env p tts r))).
            \<forall>c' n. e = UpdateHappiness c' n \<longrightarrow> c' = c \<and> n = pts)
      \<and> (setItem_throws env (happinessKey env a c)
             (toString (min 100 (max 0 (currentHappiness p c + pts)))) = None
          \<longrightarrow> ls (snd (handleSend env p tts r)) (happinessKey env a c)
              = Some (toString (min 100 (max 0 (currentHappiness p c + pts)))))"
  proof (intro allI impI)
    fix pts
    assume pts: "points opt = Some pts"
    note h = send_happiness_with_points [OF args found pts, where tts = tts]
    from h show "UpdateHappiness c pts \<in> set (newEffects r (snd (handleSend env p tts r)))
      \<and> SetItem (happinessKey env a c) (toString (min 100 (max 0 (currentHappiness p c + pts))))
          \<in> set (newEffects r (snd (handleSend env p tts r)))
      \<and> (\<forall>e\<in>set (newEffects r (snd (handleSend env p tts r))).
            \<forall>c' n. e = UpdateHappiness c' n \<longrightarrow> c' = c \<and> n = pts)
      \<and> (setItem_throws env (happinessKey env a c)
             (toString (min 100 (max 0 (currentHappiness p c + pts)))) = None
          \<longrightarrow> ls (snd (handleSend env p tts r)) (happinessKey env a c)
              = Some (toString (min 100 (max 0 (currentHappiness p c + pts)))))"
      by (elim conjE) (intro conjI; assumption)
  qed
  have without: "points opt = None \<longrightarrow>
        (\<forall>e\<in>set (newEffects r (snd (handleSend env p tts r))).
            (\<forall>c' n. e \<noteq> UpdateHappiness c' n) \<and> (\<forall>v. e \<noteq> SetItem (happinessKey env a c) v))
      \<and> ls (snd (handleSend env p tts r)) (happinessKey env a c) = ls r (happinessKey env a c)"
    by (rule impI) (rule send_happiness_without_points [OF args found])
  have prev: "happiness p c = None \<longrightarrow> currentHappiness p c = 50"
    "\<forall>h. happiness p c = Some h \<and> h \<noteq> 0 \<longrightarrow> currentHappiness p c = h"
    by (simp_all add: currentHappiness_def)
  from args have ac: "selectedCharacter p = Some c" "address p = Some a"
    by (auto simp: send_args_def split: option.splits if_splits)
  show ?thesis by (intro conjI with_points without prev ac)
qed

text \<open>
  The demo chat at scene 1: the option with 10 points raises the stored happiness from the
  default 50 to 60, the option without points leaves the happiness key as it was.
\<close>

theorem send_updates_happiness_witness:
  "findOption (currentSceneOptions demoEnv demoProps) (input (st (typingRun [20320, 22909])))
     = Some helloOption
   \<and> points helloOption = Some 10
   \<and> UpdateHappiness (lit ''mei'') 10
       \<in> set (newEffects (typingRun [20320, 22909])
                (snd (handleSend demoEnv demoProps TtsPlaying (typingRun [20320, 22909]))))
   \<and> SetItem (lit ''lingobabe_happiness_0xab_mei'') (lit ''60'')
       \<in> set (newEffects (typingRun [20320, 22909])
                (snd (handleSend demoEnv demoProps TtsPlaying (typingRun [20320, 22909]))))
   \<and> ls (snd (handleSend demoEnv demoProps TtsPlaying (typingRun [20320, 22909])))
        (lit ''lingobabe_happiness_0xab_mei'') = Some (lit ''60'')
   \<and> findOption (currentSceneOptions demoEnv demoProps) (input (st (typingRun [35874, 35874])))
     = Some plainOption
   \<and> points plainOption = None
   \<and> ls (snd (handleSend demoEnv demoProps TtsPlaying (typingRun [35874, 35874])))
        (lit ''lingobabe_happiness_0xab_mei'')
      = ls (typingRun [35874, 35874]) (lit ''lingobabe_happiness_0xab_mei'')"
proof -
  let ?r = "typingRun [20320, 22909]"
  let ?q = "typingRun [35874, 35874]"
  have args: "send_args demoEnv demoProps (st ?r) = Some (lit ''0xAB'', lit ''mei'')"
    by (simp add: send_defs demo_defs run_defs)
  have found: "findOption (currentSceneOptions demoEnv demoProps) (input (st ?r)) = Some helloOption"
    by (simp add: send_defs demo_defs run_defs)
  have pts: "points helloOption = Some 10" by (simp add: helloOption_def)
  have args': "send_args demoEnv demoProps (st ?q) = Some (lit ''0xAB'', lit ''mei'')"
    by (simp add: send_defs demo_defs run_defs)
  have found': "findOption (currentSceneOptions demoEnv demoProps) (input (st ?q)) = Some plainOption"
    by (simp add: send_defs demo_defs run_defs)
  have none: "points plainOption = None" by (simp add: plainOption_def)
  have key: "happinessKey demoEnv (lit ''0xAB'') (lit ''mei'') = lit ''lingobabe_happiness_0xab_mei''"
    by (simp add: happinessKey_def demoEnv_def asciiLower_def)
  have val: "toString (min 100 (max 0 (currentHappiness demoProps (lit ''mei'') + 10))) = lit ''60''"
    by (simp add: currentHappiness_def demoProps_def toString_def nat_digits.simps)
  have ok: "setItem_throws demoEnv (lit ''lingobabe_happiness_0xab_mei'') (lit ''60'') = None"
    by (simp add: demoEnv_def)
  note h = send_updates_happiness [OF args found, where tts = TtsPlaying]
  note h1 = h [THEN conjunct1, rule_format, OF pts]
  note h' = send_updates_happiness [OF args' found', where tts = TtsPlaying]
  note h2 = h' [THEN conjunct2, THEN conjunct1, rule_format, OF none]
  have e1: "UpdateHappiness (lit ''mei'') 10
       \<in> set (newEffects ?r (snd (handleSend demoEnv demoProps TtsPlaying ?r)))"
    using h1 [THEN conjunct1] .
  have e2: "SetItem (lit ''lingobabe_happiness_0xab_mei'') (lit ''60'')
       \<in> set (newEffects ?r (snd (handleSend demoEnv demoProps TtsPlaying ?r)))"
    using h1 [THEN conjunct2, THEN conjunct1] unfolding key val .
  have e3: "ls (snd (handleSend demoEnv demoProps TtsPlaying ?r))
        (lit ''lingobabe_happiness_0xab_mei'') = Some (lit ''60'')"
    using h1 [THEN conjunct2, THEN conjunct2, THEN conjunct2] ok
    unfolding key val by (rule mp)
  have e4: "ls (snd (handleSend demoEnv demoProps TtsPlaying ?q)) (lit ''lingobabe_happiness_0xab_mei'')
      = ls ?q (lit ''lingobabe_happiness_0xab_mei'')"
    using h2 [THEN conjunct2] unfolding key .
  show ?thesis by (intro conjI found pts e1 e2 e3 found' none e4)
qed

text \<open>
  Counterexample to claim C3 as stated, an option without numeric \<open>points\<close>: the message is sent
  and the scene goes on, but no happiness update is made and nothing is stored.
\<close>

theorem send_without_points_keeps_happiness:
  "findOption (currentSceneOptions demoEnv demoProps) (input (st (typingRun [35874, 35874])))
     = Some plainOption
   \<and> fst (handleSend demoEnv demoProps TtsPlaying (typingRun [35874, 35874])) = SendCompleted
   \<and> newEffects (typingRun [35874, 35874])
        (snd (handleSend demoEnv demoProps TtsPlaying (typingRun [35874, 35874])))
      = [AddMessage User (messageContent plainOption),
         SetItem (lit ''scene_mei_0xab'') (lit ''2''),
         SetTimeout (AdvanceScene 2) 1000]
   \<and> ls (snd (handleSend demoEnv demoProps TtsPlaying (typingRun [35874, 35874])))
        (lit ''lingobabe_happiness_0xab_mei'') = None"
  by (simp add: send_defs demo_defs run_defs)

section \<open>The survey submission\<close>

lemmas survey_defs = handleSubmit_def submit_try_def submit_catch_def submitRequest_def
  surveyObject_def dailyGoal_def surveyDataKey_def surveyCompletedKey_def successPath_def
  renderDailyGoal_def navigatesTo_def andThen_def setItem_def truthy_def Let_def newEffects_def

lemmas survey_demo_defs = demoSurvey_def surveyRun_def submittingRun_def initialSurveyState_def
  demoEnv_def fullStorageEnv_def

lemma surveyKeys_distinct: "surveyDataKey \<noteq> surveyCompletedKey"
  by (simp add: surveyDataKey_def surveyCompletedKey_def)

text \<open>
  Claim C6. While no daily goal is selected, or a submission is in progress, the submit
  handler returns at once: no request, no storage write, no state change, no effect at
  all. In the same situation the page never renders an enabled submit button: where the
  form is rendered its button is disabled.
\<close>

theorem submit_disabled_without_goal:
  assumes "\<not> truthy (dailyGoal surveyData) \<or> isSubmitting (st r)"
  shows "handleSubmit env surveyData outcome r = (NotSubmitted, r)
    \<and> newEffects r (snd (handleSubmit env surveyData outcome r)) = []
    \<and> (\<forall>d. renderDailyGoal surveyData (st r) = DailyGoalForm d \<longrightarrow> d)
    \<and> (\<not> showLoadingScreen (st r) \<longrightarrow> renderDailyGoal surveyData (st r) = DailyGoalForm True)"
  using assms by (auto simp: handleSubmit_def renderDailyGoal_def newEffects_def)

theorem submit_disabled_without_goal_witness:
  "\<not> truthy (dailyGoal [(lit ''referralSource'', lit ''TIKTOK'')])
   \<and> handleSubmit demoEnv [(lit ''referralSource'', lit ''TIKTOK'')] (Responded True None) surveyRun
       = (NotSubmitted, surveyRun)
   \<and> renderDailyGoal [(lit ''referralSource'', lit ''TIKTOK'')] (st surveyRun) = DailyGoalForm True
   \<and> renderDailyGoal demoSurvey (st surveyRun) = DailyGoalForm False"
proof -
  have h: "\<not> truthy (dailyGoal [(lit ''referralSource'', lit ''TIKTOK'')]) \<or> isSubmitting (st surveyRun)"
    by (simp add: dailyGoal_def truthy_def)
  have nl: "\<not> showLoadingScreen (st surveyRun)"
    by (simp add: surveyRun_def initialSurveyState_def)
  have en: "renderDailyGoal demoSurvey (st surveyRun) = DailyGoalForm False"
    by (simp add: survey_defs survey_demo_defs)
  from submit_disabled_without_goal [OF h, of demoEnv "Responded True None"] nl en
  show ?thesis by (simp add: dailyGoal_def truthy_def)
qed

text \<open>
  Claim C5, as the code has it. With a goal selected, no submission in progress, and a
  storage that takes the completion flag, the submit handler completes whatever the
  request does: whether \<open>fetch\<close> rejects, the response is \<open>ok\<close> or not, or its body
  cannot be read, the key \<open>lingobabe_survey_completed\<close> ends up \<open>true\<close> and the user is
  taken to the success page, by a timer of 1500 ms when the answer was read and at once
  from the \<open>catch\<close> block otherwise. The success page sets the flag once more.
\<close>

theorem submit_completes_whatever_the_answer:
  assumes goal: "truthy (dailyGoal surveyData)" and free: "\<not> isSubmitting (st r)"
    and writable: "setItem_throws env surveyCompletedKey (lit ''true'') = None"
  shows "fst (handleSubmit env surveyData outcome r) = Submitted
    \<and> ls (snd (handleSubmit env surveyData outcome r)) surveyCompletedKey = Some (lit ''true'')
    \<and> navigatesTo successPath (newEffects r (snd (handleSubmit env surveyData outcome r)))
    \<and> (\<exists>before. newEffects r (snd (handleSubmit env surveyData outcome r)) =
          before @ (case outcome of
                      Responded ok None \<Rightarrow>
                        [SetItem surveyCompletedKey (lit ''true''),
                         SetTimeout (PushRoute successPath) 1500]
                    | _ \<Rightarrow>
                        [ConsoleError, SetItem surveyCompletedKey (lit ''true''),
                         RouterPush successPath]))
    \<and> newEffects x (runRouteTimer (PushRoute successPath) x) = [RouterPush successPath]
    \<and> ls (runOf (successPageMounted env x)) surveyCompletedKey = Some (lit ''true'')
    \<and> isSubmitting (st (snd (handleSubmit env surveyData outcome r)))
    \<and> showLoadingScreen (st (snd (handleSubmit env surveyData outcome r)))"
proof -
  let ?body = "JSON_stringify env (surveyObject surveyData)"
  define r1 where "r1 = setState (\<lambda>s. s\<lparr>showLoadingScreen := True\<rparr>)
                    (setState (\<lambda>s. s\<lparr>isSubmitting := True\<rparr>) r)"
  define r2 where "r2 = (case setItem env surveyDataKey ?body r1 of
                     Done r' \<Rightarrow> r' | Thrown e r' \<Rightarrow> emit ConsoleWarn r')"
  define r3 where "r3 = emit (submitRequest env surveyData) r2"
  have eq: "handleSubmit env surveyData oc r =
      (case submit_try env oc r3 of
              Done r4 \<Rightarrow> (Submitted, r4)
            | Thrown e r4 \<Rightarrow>
                (case submit_catch env r4 of
                   Done r5 \<Rightarrow> (Submitted, r5)
                 | Thrown e' r5 \<Rightarrow> (SubmitThrew e', r5)))" for oc
    using goal free by (simp add: handleSubmit_def Let_def r1_def r2_def r3_def)
  have "\<exists>xs. log r3 = log r @ xs"
    by (cases "setItem_throws env surveyDataKey ?body")
       (simp_all add: r3_def r2_def r1_def setItem_def run_defs)
  then obtain xs where xs: "log r3 = log r @ xs" ..
  have st3: "isSubmitting (st r3)" "showLoadingScreen (st r3)"
    by (simp_all add: r3_def r2_def r1_def setItem_def run_defs split: option.splits)
  have normal: "submit_try env (Responded ok None) r3 =
      Done (emit (SetTimeout (PushRoute successPath) 1500)
             (emit (SetItem surveyCompletedKey (lit ''true''))
                (r3\<lparr>ls := (ls r3)(surveyCompletedKey \<mapsto> lit ''true'')\<rparr>)))" for ok
    using writable by (simp add: submit_try_def andThen_def setItem_def)
  have caught: "submit_catch env r4 =
      Done (emit (RouterPush successPath)
             (emit (SetItem surveyCompletedKey (lit ''true''))
                ((emit ConsoleError r4)\<lparr>ls := (ls r4)(surveyCompletedKey \<mapsto> lit ''true'')\<rparr>)))" for r4
    using writable by (simp add: submit_catch_def andThen_def setItem_def emit_def)
  have main: "fst (handleSubmit env surveyData outcome r) = Submitted
    \<and> ls (snd (handleSubmit env surveyData outcome r)) surveyCompletedKey = Some (lit ''true'')
    \<and> navigatesTo successPath (newEffects r (snd (handleSubmit env surveyData outcome r)))
    \<and> newEffects r (snd (handleSubmit env surveyData outcome r)) =
          xs @ (case outcome of
                      Responded ok None \<Rightarrow>
                        [SetItem surveyCompletedKey (lit ''true''),
                         SetTimeout (PushRoute successPath) 1500]
                    | _ \<Rightarrow>
                        [ConsoleError, SetItem surveyCompletedKey (lit ''true''),
                         RouterPush successPath])
    \<and> isSubmitting (st (snd (handleSubmit env surveyData outcome r)))
    \<and> showLoadingScreen (st (snd (handleSubmit env surveyData outcome r)))"
  proof (cases outcome)
    case (FetchRejected e)
    then have "submit_try env outcome r3 = Thrown e r3" by (simp add: submit_try_def)
    with FetchRejected show ?thesis
      using xs st3 by (simp add: eq caught newEffects_def navigatesTo_def emit_def)
  next
    case (Responded ok failure)
    show ?thesis
    proof (cases failure)
      case None
      with Responded show ?thesis
        using xs st3 by (simp add: eq normal newEffects_def navigatesTo_def emit_def)
    next
      case (Some e)
      with Responded have "submit_try env outcome r3 = Thrown e r3" by (simp add: submit_try_def)
      with Responded Some show ?thesis
        using xs st3 by (simp add: eq caught newEffects_def navigatesTo_def emit_def)
    qed
  qed
  have timer: "newEffects x (runRouteTimer (PushRoute successPath) x) = [RouterPush successPath]"
    by (simp add: newEffects_def emit_def)
  have page: "ls (runOf (successPageMounted env x)) surveyCompletedKey = Some (lit ''true'')"
    using writable by (simp add: successPageMounted_def andThen_def setItem_def emit_def)
  from main timer page show ?thesis by blast
qed

theorem submit_completes_whatever_the_answer_witness:
  "truthy (dailyGoal demoSurvey) \<and> \<not> isSubmitting (st surveyRun)
   \<and> fst (handleSubmit demoEnv demoSurvey (Responded True None) surveyRun) = Submitted
   \<and> fst (handleSubmit demoEnv demoSurvey (Responded False None) surveyRun) = Submitted
   \<and> fst (handleSubmit demoEnv demoSurvey (FetchRejected (JsError None)) surveyRun) = Submitted
   \<and> ls (snd (handleSubmit demoEnv demoSurvey (FetchRejected (JsError None)) surveyRun))
        (lit ''lingobabe_survey_completed'') = Some (lit ''true'')
   \<and> navigatesTo (lit ''/welcome-survey/success'')
        (newEffects surveyRun (snd (handleSubmit demoEnv demoSurvey (Responded False None) surveyRun)))"
proof -
  have goal: "truthy (dailyGoal demoSurvey)" by (simp add: dailyGoal_def demoSurvey_def truthy_def)
  have free: "\<not> isSubmitting (st surveyRun)" by (simp add: surveyRun_def initialSurveyState_def)
  have writable: "setItem_throws demoEnv surveyCompletedKey (lit ''true'') = None"
    by (simp add: demoEnv_def)
  note w = submit_completes_whatever_the_answer [OF goal free writable]
  from w [of "Responded True None"] w [of "Responded False None"]
    w [of "FetchRejected (JsError None)"] goal free
  show ?thesis unfolding surveyCompletedKey_def successPath_def by blast
qed

text \<open>
  Counterexample to claim C5 as stated, in two places: with a goal selected but a submission already in
  progress the handler does nothing, and when the storage refuses the completion flag the
  exception leaves the \<open>catch\<close> block before the navigation.
\<close>

theorem submit_in_progress_or_storage_full:
  "truthy (dailyGoal demoSurvey)
   \<and> handleSubmit demoEnv demoSurvey (Responded True None) submittingRun
       = (NotSubmitted, submittingRun)
   \<and> ls submittingRun surveyCompletedKey = None
   \<and> \<not> navigatesTo successPath
         (newEffects submittingRun
            (snd (handleSubmit demoEnv demoSurvey (Responded True None) submittingRun)))
   \<and> fst (handleSubmit fullStorageEnv demoSurvey (Responded True None) surveyRun)
       = SubmitThrew (JsError (Some (lit ''QuotaExceededError'')))
   \<and> ls (snd (handleSubmit fullStorageEnv demoSurvey (Responded True None) surveyRun))
        surveyCompletedKey = None
   \<and> \<not> navigatesTo successPath
         (newEffects surveyRun
            (snd (handleSubmit fullStorageEnv demoSurvey (Responded True None) surveyRun)))"
  by (simp add: survey_defs survey_demo_defs run_defs)

text \<open>
  Claim C9, as the code has it. The only request of the submit handler is a \<open>POST\<close> to
  \<open>/api/submit-survey\<close> whose body is \<open>JSON.stringify\<close> of the survey answers, field by
  field as they are. Before the request the handler passes the same text to
  \<open>localStorage.setItem\<close> under \<open>lingobabe_survey_data\<close>; the key holds it afterwards
  unless that write throws, in which case a warning is logged, the key is left as it was
  and the request is sent all the same.
\<close>

theorem submit_request_carries_answers:
  "(\<forall>e\<in>set (newEffects r (snd (handleSubmit env surveyData outcome r))).
      isFetch e \<longrightarrow>
        e = Fetch POST (lit ''/api/submit-survey'') [(lit ''Content-Type'', lit ''application/json'')]
              (JSON_stringify env (surveyObject surveyData)))
   \<and> (fst (handleSubmit env surveyData outcome r) \<noteq> NotSubmitted \<longrightarrow>
        (\<exists>rest. newEffects r (snd (handleSubmit env surveyData outcome r)) =
            SetItem surveyDataKey (JSON_stringify env (surveyObject surveyData))
            # (case setItem_throws env surveyDataKey (JSON_stringify env (surveyObject surveyData)) of
                 None \<Rightarrow> [] | Some e \<Rightarrow> [ConsoleWarn])
            @ Fetch POST (lit ''/api/submit-survey'') [(lit ''Content-Type'', lit ''application/json'')]
                (JSON_stringify env (surveyObject surveyData))
            # rest
          \<and> (\<forall>e\<in>set rest. \<not> isFetch e))
        \<and> ls (snd (handleSubmit env surveyData outcome r)) surveyDataKey =
            (case setItem_throws env surveyDataKey (JSON_stringify env (surveyObject surveyData)) of
               None \<Rightarrow> Some (JSON_stringify env (surveyObject surveyData))
             | Some e \<Rightarrow> ls r surveyDataKey))
   \<and> surveyObject surveyData = JObj (map (\<lambda>kv. (fst kv, JStr (snd kv))) surveyData)"
proof -
  let ?body = "JSON_stringify env (surveyObject surveyData)"
  let ?req = "Fetch POST (lit ''/api/submit-survey'') [(lit ''Content-Type'', lit ''application/json'')] ?body"
  let ?r' = "snd (handleSubmit env surveyData outcome r)"
  have obj: "surveyObject surveyData = JObj (map (\<lambda>kv. (fst kv, JStr (snd kv))) surveyData)"
    by (simp add: surveyObject_def case_prod_unfold)
  show ?thesis
  proof (cases "\<not> truthy (dailyGoal surveyData) \<or> isSubmitting (st r)")
    case True
    then have "handleSubmit env surveyData outcome r = (NotSubmitted, r)"
      by (auto simp: handleSubmit_def)
    then show ?thesis using obj by (simp add: newEffects_def)
  next
    case False
    define r1 where "r1 = setState (\<lambda>s. s\<lparr>showLoadingScreen := True\<rparr>)
                    (setState (\<lambda>s. s\<lparr>isSubmitting := True\<rparr>) r)"
    define r2 where "r2 = (case setItem env surveyDataKey ?body r1 of
                     Done r' \<Rightarrow> r' | Thrown e r' \<Rightarrow> emit ConsoleWarn r')"
    define r3 where "r3 = emit (submitRequest env surveyData) r2"
    have eq: "handleSubmit env surveyData outcome r =
      (case submit_try env outcome r3 of
              Done r4 \<Rightarrow> (Submitted, r4)
            | Thrown e r4 \<Rightarrow>
                (case submit_catch env r4 of
                   Done r5 \<Rightarrow> (Submitted, r5)
                 | Thrown e' r5 \<Rightarrow> (SubmitThrew e', r5)))"
      using False by (simp add: handleSubmit_def Let_def r1_def r2_def r3_def)
    have log3: "log r3 = log r @ SetItem surveyDataKey ?body
            # (case setItem_throws env surveyDataKey ?body of None \<Rightarrow> [] | Some e \<Rightarrow> [ConsoleWarn])
            @ [?req]"
      by (cases "setItem_throws env surveyDataKey ?body")
         (simp_all add: r3_def r2_def r1_def setItem_def run_defs submitRequest_def)
    have ls3: "ls r3 surveyDataKey =
            (case setItem_throws env surveyDataKey ?body of
               None \<Rightarrow> Some ?body | Some e \<Rightarrow> ls r surveyDataKey)"
      by (cases "setItem_throws env surveyDataKey ?body")
         (simp_all add: r3_def r2_def r1_def setItem_def run_defs)
    have after: "\<exists>rest. log ?r' = log r3 @ rest \<and> (\<forall>e\<in>set rest. \<not> isFetch e)
        \<and> ls ?r' surveyDataKey = ls r3 surveyDataKey"
    proof -
      have keep: "ls (runOf (setItem env surveyCompletedKey v x)) surveyDataKey = ls x surveyDataKey"
        for v and x :: "SurveyState Run"
        using surveyKeys_distinct by (simp add: setItem_def emit_def split: option.splits)
      have c: "\<exists>rest. log (runOf (submit_catch env x)) = log x @ rest \<and> (\<forall>e\<in>set rest. \<not> isFetch e)
          \<and> ls (runOf (submit_catch env x)) surveyDataKey = ls x surveyDataKey" for x
        using surveyKeys_distinct
        by (simp add: submit_catch_def andThen_def setItem_def emit_def split: option.splits)
      have t: "\<exists>rest. log (runOf (submit_try env outcome x)) = log x @ rest
          \<and> (\<forall>e\<in>set rest. \<not> isFetch e)
          \<and> ls (runOf (submit_try env outcome x)) surveyDataKey = ls x surveyDataKey" for x
        using surveyKeys_distinct
        by (simp add: submit_try_def andThen_def setItem_def emit_def
              split: SubmitOutcome.splits option.splits)
      show ?thesis
      proof (cases "submit_try env outcome r3")
        case (Done r4)
        with t [of r3] eq show ?thesis by simp
      next
        case (Thrown e r4)
        with t [of r3] obtain rest1 where 1: "log r4 = log r3 @ rest1" "\<forall>e\<in>set rest1. \<not> isFetch e"
          "ls r4 surveyDataKey = ls r3 surveyDataKey" by auto
        from c [of r4] obtain rest2 where 2: "log (runOf (submit_catch env r4)) = log r4 @ rest2"
          "\<forall>e\<in>set rest2. \<not> isFetch e"
          "ls (runOf (submit_catch env r4)) surveyDataKey = ls r4 surveyDataKey" by auto
        have "?r' = runOf (submit_catch env r4)"
          using Thrown by (simp add: eq runOf_def split: Completion.splits)
        with 1 2 have "log ?r' = log r3 @ (rest1 @ rest2) \<and> (\<forall>e\<in>set (rest1 @ rest2). \<not> isFetch e)
            \<and> ls ?r' surveyDataKey = ls r3 surveyDataKey"
          by auto
        then show ?thesis by blast
      qed
    qed
    then obtain rest where rest: "log ?r' = log r3 @ rest" "\<forall>e\<in>set rest. \<not> isFetch e"
      "ls ?r' surveyDataKey = ls r3 surveyDataKey" by blast
    have new: "newEffects r ?r' = SetItem surveyDataKey ?body
            # (case setItem_throws env surveyDataKey ?body of None \<Rightarrow> [] | Some e \<Rightarrow> [ConsoleWarn])
            @ ?req # rest"
      by (simp add: newEffects_def rest(1) log3)
    have only: "\<forall>e\<in>set (newEffects r ?r'). isFetch e \<longrightarrow> e = ?req"
      unfolding new using rest(2) by (auto split: option.splits)
    have stored: "ls ?r' surveyDataKey =
            (case setItem_throws env surveyDataKey ?body of
               None \<Rightarrow> Some ?body | Some e \<Rightarrow> ls r surveyDataKey)"
      using rest(3) ls3 by simp
    from new rest(2) only stored obj show ?thesis by blast
  qed
qed

theorem submit_request_carries_answers_witness:
  "fst (handleSubmit demoEnv demoSurvey (Responded True None) surveyRun) \<noteq> NotSubmitted
   \<and> newEffects surveyRun (snd (handleSubmit demoEnv demoSurvey (Responded True None) surveyRun))
      = [SetItem (lit ''lingobabe_survey_data'') (JSON_stringify demoEnv (surveyObject demoSurvey)),
         Fetch POST (lit ''/api/submit-survey'') [(lit ''Content-Type'', lit ''application/json'')]
           (JSON_stringify demoEnv (surveyObject demoSurvey)),
         SetItem (lit ''lingobabe_survey_completed'') (lit ''true''),
         SetTimeout (PushRoute (lit ''/welcome-survey/success'')) 1500]
   \<and> ls (snd (handleSubmit demoEnv demoSurvey (Responded True None) surveyRun))
        (lit ''lingobabe_survey_data'') = Some (JSON_stringify demoEnv (surveyObject demoSurvey))
   \<and> JSON_stringify demoEnv (surveyObject demoSurvey)
      = lit ''{\"referralSource\":\"TIKTOK\",\"motivation\":\"OTHER\",\"dailyGoal\":\"10 MIN/DAY\"}''"
  using submit_request_carries_answers [of surveyRun demoEnv demoSurvey "Responded True None"]
  by (simp add: survey_defs survey_demo_defs run_defs)

text \<open>
  Counterexample to claim C9 as stated, when the storage refuses the write: the request is sent, but
  nothing has been written under \<open>lingobabe_survey_data\<close>.
\<close>

theorem submit_request_without_backup:
  "fst (handleSubmit fullStorageEnv demoSurvey (Responded True None) surveyRun) \<noteq> NotSubmitted
   \<and> Fetch POST (lit ''/api/submit-survey'') [(lit ''Content-Type'', lit ''application/json'')]
        (JSON_stringify fullStorageEnv (surveyObject demoSurvey))
      \<in> set (newEffects surveyRun
               (snd (handleSubmit fullStorageEnv demoSurvey (Responded True None) surveyRun)))
   \<and> ls (snd (handleSubmit fullStorageEnv demoSurvey (Responded True None) surveyRun))
        surveyDataKey = None"
  by (simp add: survey_defs survey_demo_defs run_defs)

section \<open>The error banner\<close>

lemma bannerTimed_refl [simp]: "bannerTimed r r"
  by (simp add: bannerTimed_def)

lemma bannerTimed_trans: "bannerTimed r r1 \<Longrightarrow> bannerTimed r1 r2 \<Longrightarrow> bannerTimed r r2"
  unfolding bannerTimed_def
  using yields_split [of "\<lambda>e. True" r r1 "\<lambda>e. True" r2] yields_trans [of "\<lambda>e. True" r r1 r2]
  by auto

lemma bannerTimed_emit: "bannerTimed r r1 \<Longrightarrow> bannerTimed r (emit e r1)"
  unfolding bannerTimed_def
  by (auto simp: yields_iff newEffects_def emit_def)

lemma bannerTimed_setState:
  "bannerTimed r r1 \<Longrightarrow> (\<And>s. showError (f s) = showError s) \<Longrightarrow> bannerTimed r (setState f r1)"
  unfolding bannerTimed_def
  by (auto simp: yields_iff newEffects_def setState_def)

lemma bannerTimed_same:
  "log r' = log r \<Longrightarrow> showError (st r') \<longrightarrow> showError (st r) \<Longrightarrow> bannerTimed r r'"
  by (simp add: bannerTimed_def yields_iff)

lemma bannerTimed_quiet:
  "yields P r r' \<Longrightarrow> showError (st r') \<longrightarrow> showError (st r) \<Longrightarrow> bannerTimed r r'"
  by (auto simp: bannerTimed_def yields_iff)

lemma bannerTimed_showErrorMessage: "bannerTimed r (showErrorMessage msg r)"
  by (simp add: bannerTimed_def yields_iff newEffects_def showErrorMessage_def run_defs)

lemma bannerTimed_playAudio: "bannerTimed r (playAudio env p tts t r)"
  by (simp add: bannerTimed_def yields_iff newEffects_def playAudio_def Let_def
        showErrorMessage_def run_defs)

lemma send_response_showError:
  "bannerTimed r (send_response env p tts opt r)"
proof (cases "response opt")
  case None
  then show ?thesis by (simp add: send_response_def)
next
  case (Some resp)
  define r1 where "r1 = emit (AddMessage Assistant resp) r"
  define r2 where "r2 = (case video resp of None \<Rightarrow> r1
     | Some v \<Rightarrow> if v \<noteq> [] then setState (\<lambda>s. s\<lparr>currentVideo := v\<rparr>) r1 else r1)"
  have eq: "send_response env p tts opt r =
      (case primaryText resp of None \<Rightarrow> r2
       | Some t \<Rightarrow> if t \<noteq> [] then playAudio env p tts t r2 else r2)"
    unfolding send_response_def r2_def r1_def using Some by (simp add: Let_def)
  have y1: "bannerTimed r r1" unfolding r1_def by (simp add: bannerTimed_emit)
  have y2: "bannerTimed r r2"
    unfolding r2_def using y1 by (simp add: bannerTimed_setState split: option.splits)
  show ?thesis
  proof (cases "primaryText resp")
    case None
    with y2 show ?thesis by (simp add: eq)
  next
    case (Some t)
    have "bannerTimed r (playAudio env p tts t r2)"
      using y2 bannerTimed_playAudio by (rule bannerTimed_trans)
    with Some y2 show ?thesis by (simp add: eq)
  qed
qed

lemma bannerTimed_send_try: "bannerTimed r (runOf (send_try env p tts a c opt r))"
proof -
  define r0 where "r0 = emit (AddMessage User (messageContent opt)) r"
  define r1 where "r1 = runOf (send_happiness env p a c opt r0)"
  define r2 where "r2 = send_response env p tts opt r1"
  have y0: "bannerTimed r r0" unfolding r0_def by (simp add: bannerTimed_emit)
  have "bannerTimed r0 r1"
    unfolding r1_def by (rule bannerTimed_quiet [OF yields_send_happiness [of _ "\<lambda>e. True"]]) simp_all
  with y0 have y1: "bannerTimed r r1" by (rule bannerTimed_trans)
  have "bannerTimed r1 r2" unfolding r2_def by (rule send_response_showError)
  with y1 have y2: "bannerTimed r r2" by (rule bannerTimed_trans)
  show ?thesis
  proof (cases "send_happiness env p a c opt r0")
    case (Thrown e x)
    with y1 show ?thesis by (simp add: send_try_runOf r0_def r1_def)
  next
    case (Done x)
    then have x: "x = r1" by (simp add: r1_def)
    show ?thesis
    proof (cases "currentScene p \<ge> 5")
      case True
      have "bannerTimed r2 (send_complete env a c r2)"
        by (rule bannerTimed_quiet [OF yields_send_complete [of "\<lambda>e. True"]])
           (simp_all add: send_complete_st)
      with y2 have "bannerTimed r (send_complete env a c r2)" by (rule bannerTimed_trans)
      then show ?thesis using Done True x
        by (simp add: send_try_runOf r0_def [symmetric] r2_def [symmetric] bannerTimed_setState)
    next
      case False
      have "bannerTimed r2 (runOf (send_next env p a c r2))"
        by (rule bannerTimed_quiet [OF yields_send_next [of "\<lambda>e. True"]]) simp_all
      with y2 have "bannerTimed r (runOf (send_next env p a c r2))" by (rule bannerTimed_trans)
      moreover have "runOf (send_try env p tts a c opt r) =
          (case send_next env p a c r2 of Thrown e r3 \<Rightarrow> r3
           | Done r3 \<Rightarrow> setState (\<lambda>s. s\<lparr>showOptions := False\<rparr>)
                         (setState (\<lambda>s. s\<lparr>input := []\<rparr>) r3))"
        using Done False x by (simp add: send_try_runOf r0_def [symmetric] r2_def [symmetric])
      ultimately show ?thesis
        by (cases "send_next env p a c r2") (simp_all add: bannerTimed_setState)
    qed
  qed
qed

lemma bannerTimed_handleSend: "bannerTimed r (snd (handleSend env p tts r))"
proof (cases rule: handleSend_cases [of env p r tts])
  case invalid
  then show ?thesis by (simp add: bannerTimed_showErrorMessage)
next
  case (unknown a c)
  then show ?thesis by (simp add: bannerTimed_showErrorMessage)
next
  case (sent a c opt r')
  with bannerTimed_send_try [of r env p tts a c opt] show ?thesis by simp
next
  case (failed a c opt e r')
  with bannerTimed_send_try [of r env p tts a c opt] have "bannerTimed r r'" by simp
  then have "bannerTimed r (emit ConsoleError r')" by (rule bannerTimed_emit)
  then have "bannerTimed r
     (showErrorMessage (js_or_str (message e) (lit ''Failed to send message'')) (emit ConsoleError r'))"
    using bannerTimed_showErrorMessage by (rule bannerTimed_trans)
  then show ?thesis using failed(4) by (simp add: bannerTimed_setState)
qed

lemma bannerTimed_handleEndChat: "bannerTimed r (handleEndChat env p r)"
proof -
  have "yields (\<lambda>e. \<not> isFetch e) r (handleEndChat env p r)" by (rule no_fetch_handleEndChat)
  moreover have "showError (st (handleEndChat env p r)) = showError (st r)"
    by (simp add: handleEndChat_def Let_def handleChatCompleted_def emit_def setState_def removeItem_def
         split: option.splits)
  ultimately show ?thesis by (simp add: bannerTimed_quiet)
qed

lemma bannerTimed_step: "bannerTimed r (step ev r)"
proof (cases ev)
  case (CheckAccessBegins env p)
  then show ?thesis
    by (simp add: bannerTimed_def checkAccess_begin_def checkAccess_skip_def checkAccess_call_def
          yields_iff run_defs split: option.splits)
next
  case (CheckAccessSettles env a c outcome)
  then show ?thesis
    by (cases outcome)
       (simp_all add: bannerTimed_def checkAccess_settle_def Let_def yields_iff run_defs
          split: Reason.splits)
next
  case (AccessStatusChanged p detail)
  then show ?thesis
    by (simp add: bannerTimed_def handleAccessChange_def yields_iff run_defs split: option.splits)
next
  case (ChatCompleted env p detail)
  then show ?thesis
    by (simp add: bannerTimed_def handleChatCompleted_def Let_def yields_iff run_defs
          split: option.splits)
next
  case AccessGranted
  then show ?thesis by (simp add: bannerTimed_def handleAccessGranted_def yields_iff run_defs)
next
  case (PlayAudioClicked env p tts words)
  then show ?thesis by (simp add: handlePlayAudio_def bannerTimed_playAudio)
next
  case AudioEnded
  then show ?thesis by (simp add: bannerTimed_def audioEnded_def yields_iff run_defs)
next
  case (OptionSelected words)
  then show ?thesis by (simp add: bannerTimed_def handleOptionSelect_def yields_iff run_defs)
next
  case OptionsToggled
  then show ?thesis by (simp add: bannerTimed_def yields_iff run_defs)
next
  case (SendClicked env p tts)
  then show ?thesis by (simp add: bannerTimed_handleSend)
next
  case (EndChat env p)
  then show ?thesis by (simp add: bannerTimed_handleEndChat)
next
  case (ReturnToSelection env p)
  then show ?thesis by (simp add: bannerTimed_def handleReturnToSelection_def yields_iff run_defs)
next
  case (Back env p)
  then show ?thesis by (simp add: bannerTimed_def onBack_def yields_iff run_defs)
next
  case (BackToTutors env p)
  then show ?thesis by (simp add: bannerTimed_def backToTutors_def yields_iff run_defs)
next
  case (TimerFired cb)
  then show ?thesis by (cases cb) (simp_all add: bannerTimed_def yields_iff run_defs)
qed

text \<open>
  On the clock. A callback other than \<open>ClearErrorBanner\<close> leaves the flag alone, so after
  a batch of timeouts has fired the flag is up only if it was up before and no
  \<open>ClearErrorBanner\<close> was in the batch.
\<close>

lemma fireAll_showError:
  "showError (st (fireAll dcs r)) = (showError (st r) \<and> ClearErrorBanner \<notin> snd ` set dcs)"
proof (induction dcs arbitrary: r)
  case Nil
  then show ?case by simp
next
  case (Cons dc dcs)
  show ?case by (cases "snd dc") (auto simp: Cons.IH setState_def emit_def)
qed

lemma scheduled_mem: "SetTimeout cb ms \<in> set es \<Longrightarrow> (t + ms, cb) \<in> set (scheduled t es)"
  by (induction t es rule: scheduled.induct) auto

lemma bannerCovered_fireDue:
  assumes cov: "bannerCovered w" and le: "clock w \<le> t"
  shows "bannerCovered (fireDue t w)"
proof (cases "showError (st (comp (fireDue t w)))")
  case False
  then show ?thesis by (simp add: bannerCovered_def)
next
  case True
  then have up: "showError (st (comp w))"
    and unfired: "\<forall>dc\<in>set (timers w). fst dc \<le> t \<longrightarrow> snd dc \<noteq> ClearErrorBanner"
    by (force simp: fireDue_def fireAll_showError)+
  from cov up obtain dc where dc: "dc \<in> set (timers w)" "snd dc = ClearErrorBanner"
    "fst dc \<le> clock w + 5000"
    by (auto simp: bannerCovered_def list_ex_iff)
  with unfired have "\<not> fst dc \<le> t" by blast
  with dc le have "dc \<in> set (timers (fireDue t w))" "fst dc \<le> clock (fireDue t w) + 5000"
    by (simp_all add: fireDue_def)
  with dc(2) show ?thesis by (auto simp: bannerCovered_def list_ex_iff)
qed

lemma bannerCovered_timedStep:
  assumes "bannerCovered w"
  shows "bannerCovered (timedStep de w)"
proof -
  define w1 where "w1 = fireDue (clock w + fst de) w"
  define r' where "r' = step (snd de) (comp w1)"
  have c1: "bannerCovered w1" unfolding w1_def using assms by (rule bannerCovered_fireDue) simp
  have eq: "timedStep de w
      = w1\<lparr>comp := r', timers := timers w1 @ scheduled (clock w1) (newEffects (comp w1) r')\<rparr>"
    by (simp add: timedStep_def Let_def w1_def r'_def)
  have bt: "bannerTimed (comp w1) r'" unfolding r'_def by (rule bannerTimed_step)
  show ?thesis
  proof (cases "showError (st r')")
    case False
    then show ?thesis by (simp add: eq bannerCovered_def)
  next
    case True
    with bt consider "showError (st (comp w1))"
      | "SetTimeout ClearErrorBanner 5000 \<in> set (newEffects (comp w1) r')"
      by (auto simp: bannerTimed_def)
    then show ?thesis
    proof cases
      case 1
      with c1 show ?thesis by (auto simp: eq bannerCovered_def list_ex_iff)
    next
      case 2
      then have "(clock w1 + 5000, ClearErrorBanner)
          \<in> set (scheduled (clock w1) (newEffects (comp w1) r'))"
        by (rule scheduled_mem)
      then show ?thesis by (force simp: eq bannerCovered_def list_ex_iff)
    qed
  qed
qed

lemma bannerCovered_timedRun: "bannerCovered w \<Longrightarrow> bannerCovered (timedRun des w)"
  by (induction des arbitrary: w) (simp_all add: bannerCovered_timedStep)

lemma bannerCovered_idle:
  assumes cov: "bannerCovered w"
  shows "\<not> showError (st (comp (fireDue (clock w + 5000) w)))"
proof
  assume "showError (st (comp (fireDue (clock w + 5000) w)))"
  then have up: "showError (st (comp w))"
    and unfired: "\<forall>dc\<in>set (timers w). fst dc \<le> clock w + 5000 \<longrightarrow> snd dc \<noteq> ClearErrorBanner"
    by (force simp: fireDue_def fireAll_showError)+
  from cov up obtain dc where "dc \<in> set (timers w)" "snd dc = ClearErrorBanner"
    "fst dc \<le> clock w + 5000"
    by (auto simp: bannerCovered_def list_ex_iff)
  with unfired show False by blast
qed

lemma runTimer_sets_no_timeout: "scheduled t (newEffects r (runTimer cb r)) = []"
  by (cases cb) (simp_all add: newEffects_def setState_def emit_def)


text \<open>
  Claim C7, as the code has it. \<open>showErrorMessage\<close> sets the error text and makes the
  banner visible, and the one effect it adds is a timeout of 5000 milliseconds; when that
  timeout fires, visibility and text are cleared, whatever happened in between. On the
  chat screen the banner then shows the message, and is gone after the timeout. The banner
  is shown only while \<open>showError\<close> holds, and every event of the component that raises
  \<open>showError\<close> sets that timeout of 5000 milliseconds. No callback sets a timeout, and
  none is ever cancelled. So, with timeouts firing when they are due: a component mounted
  with the flag down, and after any events at any times, has a \<open>ClearErrorBanner\<close> pending
  and due within 5000 milliseconds whenever the flag is up, and 5000 milliseconds later
  the flag is down unless an event has raised it again. The timeout that takes the banner
  down may be the one of an earlier message, so a banner stays for at most 5000
  milliseconds, not exactly. A settled access check leaves the flag as it is and sets no
  timeout; when it was rejected with an error object it replaces the text.
\<close>

theorem showErrorMessage_transient:
  "st (showErrorMessage msg r) = (st r)\<lparr>error := Some msg, showError := True\<rparr>
   \<and> ls (showErrorMessage msg r) = ls r
   \<and> newEffects r (showErrorMessage msg r) = [SetTimeout ClearErrorBanner 5000]
   \<and> st (runTimer ClearErrorBanner r') = (st r')\<lparr>showError := False, error := None\<rparr>
   \<and> newEffects r' (runTimer ClearErrorBanner r') = []
   \<and> banner (chatView env p (st (showErrorMessage msg r))) = (if msg = [] then None else Some msg)
   \<and> banner (chatView env p (st (runTimer ClearErrorBanner r'))) = None
   \<and> (banner (chatView env p s) \<noteq> None \<longrightarrow> showError s)
   \<and> (showError (st (step ev r)) \<and> \<not> showError (st r)
        \<longrightarrow> SetTimeout ClearErrorBanner 5000 \<in> set (newEffects r (step ev r)))
   \<and> scheduled t (newEffects r (runTimer cb r)) = []
   \<and> bannerCovered (mounted r) = (\<not> showError (st r))
   \<and> (bannerCovered w \<longrightarrow> bannerCovered (timedRun des w))
   \<and> (bannerCovered w \<longrightarrow> \<not> showError (st (comp (fireDue (clock w + 5000) w))))
   \<and> showError (st (checkAccess_settle env a c outcome r)) = showError (st r)
   \<and> scheduled t (newEffects r (checkAccess_settle env a c outcome r)) = []
   \<and> error (st (checkAccess_settle env a c (AccessRejected (ErrorObject e)) r))
       = Some (js_or_str (message e) (lit ''Failed to verify access status''))"
proof -
  have "bannerTimed r (step ev r)" by (rule bannerTimed_step)
  then have rising: "showError (st (step ev r)) \<and> \<not> showError (st r)
        \<longrightarrow> SetTimeout ClearErrorBanner 5000 \<in> set (newEffects r (step ev r))"
    by (auto simp: bannerTimed_def)
  have shown: "st (showErrorMessage msg r) = (st r)\<lparr>error := Some msg, showError := True\<rparr>"
    "ls (showErrorMessage msg r) = ls r"
    "newEffects r (showErrorMessage msg r) = [SetTimeout ClearErrorBanner 5000]"
    "banner (chatView env p (st (showErrorMessage msg r))) = (if msg = [] then None else Some msg)"
    by (simp_all add: showErrorMessage_def run_defs chatView_def truthy_def newEffects_def)
  have cleared: "st (runTimer ClearErrorBanner r') = (st r')\<lparr>showError := False, error := None\<rparr>"
    "newEffects r' (runTimer ClearErrorBanner r') = []"
    "banner (chatView env p (st (runTimer ClearErrorBanner r'))) = None"
    by (simp_all add: run_defs chatView_def truthy_def newEffects_def)
  have flag: "banner (chatView env p s) \<noteq> None \<longrightarrow> showError s"
    by (simp add: chatView_def truthy_def)
  have callbacks: "scheduled t (newEffects r (runTimer cb r)) = []"
    by (rule runTimer_sets_no_timeout)
  have start: "bannerCovered (mounted r) = (\<not> showError (st r))"
    by (simp add: bannerCovered_def mounted_def)
  have inv: "bannerCovered w \<longrightarrow> bannerCovered (timedRun des w)"
    by (simp add: bannerCovered_timedRun)
  have idle: "bannerCovered w \<longrightarrow> \<not> showError (st (comp (fireDue (clock w + 5000) w)))"
    by (simp add: bannerCovered_idle)
  have access: "showError (st (checkAccess_settle env a c outcome r)) = showError (st r)"
    "scheduled t (newEffects r (checkAccess_settle env a c outcome r)) = []"
    "error (st (checkAccess_settle env a c (AccessRejected (ErrorObject e)) r))
       = Some (js_or_str (message e) (lit ''Failed to verify access status''))"
    by (simp_all add: checkAccess_settle_def Let_def run_defs newEffects_def
          split: AccessOutcome.splits Reason.splits)
  show ?thesis
    by (intro conjI shown cleared flag rising callbacks start inv idle access)
qed

lemma thirdBanner_state:
  "clock thirdBanner = 6000"
  "timers thirdBanner = [(8000, ClearErrorBanner), (11000, ClearErrorBanner)]"
  "showError (st (comp thirdBanner))"
  by (simp_all add: thirdBanner_def twoBanners_def timedStep_def fireDue_def mounted_def Let_def
        emptySend_def send_defs demo_defs run_defs)

text \<open>
  On the demo chat: a rejected send raises the banner and sets the timeout; the component
  after the third of three rejected sends has the banner up and covered, and 5000
  milliseconds later it is down.
\<close>

theorem showErrorMessage_transient_witness:
  "newEffects chattingRun (showErrorMessage (lit ''Invalid input or connection state'') chattingRun)
     = [SetTimeout ClearErrorBanner 5000]
   \<and> banner (chatView demoEnv demoProps
        (st (showErrorMessage (lit ''Invalid input or connection state'') chattingRun)))
     = Some (lit ''Invalid input or connection state'')
   \<and> banner (chatView demoEnv demoProps
        (st (runTimer ClearErrorBanner
               (showErrorMessage (lit ''Invalid input or connection state'') chattingRun))))
     = None
   \<and> \<not> showError (st (typingRun (lit ''hello'')))
   \<and> showError (st (step (SendClicked demoEnv demoProps TtsPlaying) (typingRun (lit ''hello''))))
   \<and> SetTimeout ClearErrorBanner 5000
       \<in> set (newEffects (typingRun (lit ''hello''))
                (step (SendClicked demoEnv demoProps TtsPlaying) (typingRun (lit ''hello''))))
   \<and> showError (st (comp thirdBanner))
   \<and> bannerCovered thirdBanner
   \<and> bannerCovered (timedRun [(1000, emptySend)] thirdBanner)
   \<and> \<not> showError (st (comp (fireDue 11000 thirdBanner)))"
proof -
  define msg where "msg = lit ''Invalid input or connection state''"
  have before: "\<not> showError (st (typingRun (lit ''hello'')))"
    by (simp add: demo_defs run_defs)
  have after: "showError (st (step (SendClicked demoEnv demoProps TtsPlaying) (typingRun (lit ''hello''))))"
    by (simp add: send_defs demo_defs run_defs)
  have up: "showError (st (comp thirdBanner))" by (rule thirdBanner_state)
  have cov: "bannerCovered thirdBanner" by (simp add: bannerCovered_def thirdBanner_state)
  note w1 = showErrorMessage_transient
    [where msg = msg and r = chattingRun and r' = "showErrorMessage msg chattingRun"
       and env = demoEnv and p = demoProps and w = thirdBanner and des = "[(1000, emptySend)]"
       and s = "st chattingRun" and ev = emptySend and t = 0 and cb = ClearErrorBanner
       and a = "[]" and c = "[]" and outcome = "AccessResolved True" and e = "JsError None"]
  note w2 = showErrorMessage_transient
    [where msg = msg and r = "typingRun (lit ''hello'')" and r' = chattingRun
       and env = demoEnv and p = demoProps and w = thirdBanner and des = "[]"
       and s = "st chattingRun" and ev = "SendClicked demoEnv demoProps TtsPlaying"
       and t = 0 and cb = ClearErrorBanner
       and a = "[]" and c = "[]" and outcome = "AccessResolved True" and e = "JsError None"]
  from w1 have a: "newEffects chattingRun (showErrorMessage msg chattingRun)
       = [SetTimeout ClearErrorBanner 5000]"
    by (elim conjE)
  from w1 have b: "banner (chatView demoEnv demoProps
        (st (runTimer ClearErrorBanner (showErrorMessage msg chattingRun)))) = None"
    by (elim conjE)
  from w1 have "banner (chatView demoEnv demoProps (st (showErrorMessage msg chattingRun)))
       = (if msg = [] then None else Some msg)"
    by (elim conjE)
  then have c: "banner (chatView demoEnv demoProps (st (showErrorMessage msg chattingRun))) = Some msg"
    by (simp add: msg_def)
  from w2 have "showError (st (step (SendClicked demoEnv demoProps TtsPlaying) (typingRun (lit ''hello''))))
        \<and> \<not> showError (st (typingRun (lit ''hello'')))
      \<longrightarrow> SetTimeout ClearErrorBanner 5000
       \<in> set (newEffects (typingRun (lit ''hello''))
                (step (SendClicked demoEnv demoProps TtsPlaying) (typingRun (lit ''hello''))))"
    by (elim conjE)
  with before after have d: "SetTimeout ClearErrorBanner 5000
       \<in> set (newEffects (typingRun (lit ''hello''))
                (step (SendClicked demoEnv demoProps TtsPlaying) (typingRun (lit ''hello''))))"
    by blast
  from w1 have "bannerCovered thirdBanner \<longrightarrow> bannerCovered (timedRun [(1000, emptySend)] thirdBanner)"
    by (elim conjE)
  with cov have e: "bannerCovered (timedRun [(1000, emptySend)] thirdBanner)" by (rule rev_mp)
  from w1 have "bannerCovered thirdBanner
      \<longrightarrow> \<not> showError (st (comp (fireDue (clock thirdBanner + 5000) thirdBanner)))"
    by (elim conjE)
  with cov have "\<not> showError (st (comp (fireDue (clock thirdBanner + 5000) thirdBanner)))"
    by (rule rev_mp)
  then have f: "\<not> showError (st (comp (fireDue 11000 thirdBanner)))"
    by (simp add: thirdBanner_state)
  show ?thesis
    unfolding msg_def [symmetric]
    by (intro conjI a c b before after d up cov e f)
qed

text \<open>
  Counterexample to claim C7 as stated, a banner that is dismissed after 2000 milliseconds.
  Send is clicked on an empty input at 0, 3000 and 6000 milliseconds; each click is
  rejected before the handler awaits anything and calls \<open>showErrorMessage\<close>. The timeout
  of the first click fires at 5000 and takes the banner down. The third click raises it
  again at 6000; the timeout of the second click fires at 8000 and clears it, while the
  timeout of the third click is pending until 11000.
\<close>

theorem banner_cleared_by_earlier_timeout:
  "clock twoBanners = 3000
   \<and> timers twoBanners = [(5000, ClearErrorBanner), (8000, ClearErrorBanner)]
   \<and> banner (chatView demoEnv demoProps (st (comp (fireDue 5999 twoBanners)))) = None
   \<and> clock thirdBanner = 6000
   \<and> timers thirdBanner = [(8000, ClearErrorBanner), (11000, ClearErrorBanner)]
   \<and> banner (chatView demoEnv demoProps (st (comp thirdBanner)))
      = Some (lit ''Invalid input or connection state'')
   \<and> banner (chatView demoEnv demoProps (st (comp (fireDue 7999 thirdBanner))))
      = Some (lit ''Invalid input or connection state'')
   \<and> banner (chatView demoEnv demoProps (st (comp (fireDue 8000 thirdBanner)))) = None
   \<and> timers (fireDue 8000 thirdBanner) = [(11000, ClearErrorBanner)]"
  by (simp add: thirdBanner_def twoBanners_def timedStep_def fireDue_def mounted_def Let_def
        emptySend_def send_defs demo_defs run_defs chatView_def)

end
